theory Spec2Isabelle
  imports Complex_Main
begin

section \<open>JavaScript values and the hosting platform\<close>

text \<open>
  The three source files (\<^verbatim>\<open>cf-worker-proxy.js\<close>, \<^verbatim>\<open>cf-worker-upload.js\<close>,
  \<^verbatim>\<open>supabase-edge-proxy.ts\<close>) are HTTP handlers. What a handler reads from a request
  body is whatever \<^verbatim>\<open>request.json()\<close> returns: an arbitrary JSON value. A property that
  is absent reads as \<^verbatim>\<open>undefined\<close>, so the value type has that constructor too.
  An object is the list of its own properties in insertion order.

  Strings are HOL strings, so a character is an 8-bit code unit. This is exact for the
  binary string \<^verbatim>\<open>atob\<close> returns (code units 0..255) and for ASCII text. The one string
  function whose result on other text is sent on, \<^verbatim>\<open>toUpperCase\<close>, is left to the
  platform.
\<close>

datatype jsval =
    JUndefined
  | JNull
  | JBool bool
  | JNum rat
  | JStr string
  | JArr "jsval list"
  | JObj "(string \<times> jsval) list"

text \<open>JavaScript truthiness (\<^verbatim>\<open>if (x)\<close>, \<^verbatim>\<open>x && y\<close>, \<^verbatim>\<open>x || y\<close>) and its negation \<^verbatim>\<open>!x\<close>.\<close>

fun truthy :: "jsval \<Rightarrow> bool" where
  "truthy JUndefined = False"
| "truthy JNull = False"
| "truthy (JBool b) = b"
| "truthy (JNum n) = (n \<noteq> 0)"
| "truthy (JStr s) = (s \<noteq> [])"
| "truthy (JArr xs) = True"
| "truthy (JObj ps) = True"

fun falsy :: "jsval \<Rightarrow> bool" where
  "falsy JUndefined = True"
| "falsy JNull = True"
| "falsy (JBool b) = (if b then False else True)"
| "falsy (JNum n) = (n = 0)"
| "falsy (JStr s) = (s = [])"
| "falsy (JArr xs) = False"
| "falsy (JObj ps) = False"

text \<open>
  Reading a property \<^verbatim>\<open>v[k]\<close> of a value that is not \<^verbatim>\<open>null\<close>. The keys the
  handlers read (\<^verbatim>\<open>method\<close>, \<^verbatim>\<open>url\<close>, \<^verbatim>\<open>headers\<close>, \<^verbatim>\<open>body\<close>, \<^verbatim>\<open>image_data\<close>,
  \<^verbatim>\<open>filename\<close>, \<^verbatim>\<open>token\<close>, \<^verbatim>\<open>target_url\<close>, \<^verbatim>\<open>Content-Type\<close>) exist on no prototype, so
  for every value but an object the result is \<^verbatim>\<open>undefined\<close>.
\<close>

fun get_prop :: "jsval \<Rightarrow> string \<Rightarrow> jsval" where
  "get_prop (JObj ps) k = (case map_of ps k of Some v \<Rightarrow> v | None \<Rightarrow> JUndefined)"
| "get_prop v k = JUndefined"

text \<open>Assignment \<^verbatim>\<open>o[k] = v\<close> on an object's property list: an existing key keeps its
  place, a new key is appended.\<close>

fun assign :: "string \<Rightarrow> jsval \<Rightarrow> (string \<times> jsval) list \<Rightarrow> (string \<times> jsval) list" where
  "assign k v [] = [(k, v)]"
| "assign k v ((k', v') # ps) = (if k' = k then (k, v) # ps else (k', v') # assign k v ps)"

text \<open>
  Errors the language or the runtime raises by itself. The handlers only ever read
  \<^verbatim>\<open>error.message\<close>, so a thrown error is modelled by its message, and the wording of
  the message is left to the platform.
\<close>

datatype fault =
    DestructureNull
  | NotAFunction string
  | AssignOnPrimitive
  | InvalidCharacter
  | StatusOutOfRange
  | NullBodyStatusWithBody

text \<open>What a handler passes to \<^verbatim>\<open>fetch(url, options)\<close>, and what comes back.\<close>

datatype form_part =
    FilePart string "nat list" string string
  | TextPart string string

datatype request_body =
    TextBody string
  | FormBody "form_part list"

record fetch_options =
  opt_method :: string
  opt_headers :: jsval
  opt_body :: "request_body option"

type_synonym fetch_call = "jsval \<times> fetch_options"

record upstream_response =
  up_status :: nat
  up_text :: "string + string"

record response =
  res_status :: nat
  res_headers :: "(string \<times> string) list"
  res_body :: "string option"

record request =
  req_method :: string
  req_pathname :: string
  req_text :: string

text \<open>
  The platform: the built-ins of the JavaScript runtime that are not code of this
  repository and that the handlers call. A failing call returns \<open>Inl\<close> with the
  message of the error it throws.
  \<^item> \<open>JSON_parse\<close>: \<^verbatim>\<open>JSON.parse\<close>, also what \<^verbatim>\<open>request.json()\<close> applies to the body text;
  \<^item> \<open>JSON_stringify\<close>: \<^verbatim>\<open>JSON.stringify\<close> on a value that holds no \<^verbatim>\<open>undefined\<close>;
  \<^item> \<open>ToString\<close>: the string conversion of a value that is not a string;
  \<^item> \<open>String_toUpperCase\<close>: \<^verbatim>\<open>String.prototype.toUpperCase\<close>, whose result on the method
    is what the relay sends (it maps letters beyond ASCII too, and may change the length);
  \<^item> \<open>net_fetch\<close>: the global \<^verbatim>\<open>fetch\<close>; \<open>Inl\<close> is a network-level failure;
  \<^item> \<open>fault_message\<close>: the message of an error the engine raises;
  \<^item> \<open>now_ISO\<close>: \<^verbatim>\<open>new Date().toISOString()\<close>.
\<close>

record platform =
  JSON_parse :: "string \<Rightarrow> string + jsval"
  JSON_stringify :: "jsval \<Rightarrow> string"
  ToString :: "jsval \<Rightarrow> string"
  String_toUpperCase :: "string \<Rightarrow> string"
  net_fetch :: "jsval \<Rightarrow> fetch_options \<Rightarrow> string + upstream_response"
  fault_message :: "fault \<Rightarrow> string"
  now_ISO :: string

type_synonym outcome = "(string + response) \<times> fetch_call list"

subsection \<open>String built-ins\<close>

definition js_ToString :: "platform \<Rightarrow> jsval \<Rightarrow> string" where
  "js_ToString P v = (case v of JStr s \<Rightarrow> s | _ \<Rightarrow> ToString P v)"

text \<open>
  \<^verbatim>\<open>toLowerCase\<close> is only applied to the filename, and its result is only tested for
  ending in one of four ASCII extensions; it is modelled on the ASCII letters, every
  other character kept. (\<^verbatim>\<open>toUpperCase\<close> is a function of the platform.)
\<close>

definition lower_char :: "char \<Rightarrow> char" where
  "lower_char c =
     (case map_of (zip ''ABCDEFGHIJKLMNOPQRSTUVWXYZ'' ''abcdefghijklmnopqrstuvwxyz'') c of
        Some l \<Rightarrow> l | None \<Rightarrow> c)"

definition toLowerCase :: "string \<Rightarrow> string" where
  "toLowerCase s = map lower_char s"

definition endsWith :: "string \<Rightarrow> string \<Rightarrow> bool" where
  "endsWith s x = (length x \<le> length s \<and> drop (length s - length x) s = x)"

text \<open>\<^verbatim>\<open>v.toUpperCase()\<close> and \<^verbatim>\<open>v.toLowerCase()\<close> on an arbitrary value: only a string has
  the function; on anything else the call is a TypeError.\<close>

definition call_toUpperCase :: "platform \<Rightarrow> string \<Rightarrow> jsval \<Rightarrow> string + string" where
  "call_toUpperCase P name v =
     (case v of JStr s \<Rightarrow> Inr (String_toUpperCase P s)
      | _ \<Rightarrow> Inl (fault_message P (NotAFunction (name @ ''.toUpperCase''))))"

definition call_toLowerCase :: "platform \<Rightarrow> string \<Rightarrow> jsval \<Rightarrow> string + string" where
  "call_toLowerCase P name v =
     (case v of JStr s \<Rightarrow> Inr (toLowerCase s)
      | _ \<Rightarrow> Inl (fault_message P (NotAFunction (name @ ''.toLowerCase''))))"

text \<open>
  \<^verbatim>\<open>o[k] = v\<close> in a module (strict mode). On an object the property is set. On an array
  the named property is set too, but the elements are unchanged and \<^verbatim>\<open>fetch\<close> reads an
  array of headers as a sequence of pairs, so the value \<^verbatim>\<open>fetch\<close> sees is the array as
  it was. On a primitive the assignment is a TypeError.
\<close>

definition set_prop :: "platform \<Rightarrow> jsval \<Rightarrow> string \<Rightarrow> jsval \<Rightarrow> string + jsval" where
  "set_prop P target k v =
     (case target of
        JObj ps \<Rightarrow> Inr (JObj (assign k v ps))
      | JArr xs \<Rightarrow> Inr (JArr xs)
      | _ \<Rightarrow> Inl (fault_message P AssignOnPrimitive))"

subsection \<open>The Response constructor\<close>

text \<open>
  \<^verbatim>\<open>new Response(body, {status, headers})\<close> as the Fetch standard defines it: a status
  outside 200..599 is a RangeError, and a body that is not \<^verbatim>\<open>null\<close> together with a
  null body status (101, 103, 204, 205, 304) is a TypeError. The Cloudflare Workers runtime
  and Deno, the two runtimes the files are written for, both make these checks; the body
  \<^verbatim>\<open>jsonResponse\<close> passes is the text \<^verbatim>\<open>JSON.stringify\<close> returns, never \<^verbatim>\<open>null\<close>.
\<close>

definition null_body_status :: "nat \<Rightarrow> bool" where
  "null_body_status s = (s = 101 \<or> s = 103 \<or> s = 204 \<or> s = 205 \<or> s = 304)"

definition new_Response ::
  "platform \<Rightarrow> string option \<Rightarrow> nat \<Rightarrow> (string \<times> string) list \<Rightarrow> string + response" where
  "new_Response P body status headers =
     (if status < 200 \<or> 599 < status then Inl (fault_message P StatusOutOfRange)
      else if body \<noteq> None \<and> null_body_status status
        then Inl (fault_message P NullBodyStatusWithBody)
      else Inr \<lparr>res_status = status, res_headers = headers, res_body = body\<rparr>)"

subsection \<open>Reading the upstream's answer\<close>

text \<open>
  The inner \<^verbatim>\<open>try { responseData = JSON.parse(responseText) } catch
  { responseData = { raw_response: responseText } }\<close>, the same statement in all five
  handlers.
\<close>

definition parse_or_wrap :: "platform \<Rightarrow> string \<Rightarrow> jsval" where
  "parse_or_wrap P responseText =
     (case JSON_parse P responseText of
        Inr v \<Rightarrow> v
      | Inl e \<Rightarrow> JObj [(''raw_response'', JStr responseText)])"

subsection \<open>\<^verbatim>\<open>atob\<close> and the byte array\<close>

text \<open>
  \<^verbatim>\<open>atob(data)\<close> converts its argument to a string and runs the forgiving-base64 decode
  of the Infra standard on it: ASCII whitespace is removed; when the length is then a
  multiple of four, one or two trailing \<^verbatim>\<open>=\<close> are removed; a length that leaves
  remainder one, or any character outside the base64 alphabet, is a failure
  (\<^verbatim>\<open>atob\<close> throws InvalidCharacterError); otherwise each character gives six bits,
  each full 24 bits give three bytes, and a remainder of 12 or 18 bits gives one or
  two bytes, its lowest 4 or 2 bits dropped.
\<close>

definition ascii_whitespace :: "char \<Rightarrow> bool" where
  "ascii_whitespace c = (c \<in> set [CHR 0x09, CHR 0x0A, CHR 0x0C, CHR 0x0D, CHR 0x20])"

definition base64_alphabet :: string where
  "base64_alphabet = ''ABCDEFGHIJKLMNOPQRSTUVWXYZabcdefghijklmnopqrstuvwxyz0123456789+/''"

fun index_of :: "char \<Rightarrow> string \<Rightarrow> nat option" where
  "index_of c [] = None"
| "index_of c (x # xs) = (if c = x then Some 0 else map_option Suc (index_of c xs))"

definition strip_padding :: "string \<Rightarrow> string" where
  "strip_padding d =
     (if length d mod 4 = 0
      then (if endsWith d ''=='' then butlast (butlast d)
            else if endsWith d ''='' then butlast d
            else d)
      else d)"

fun sextets_to_bytes :: "nat list \<Rightarrow> nat list" where
  "sextets_to_bytes (a # b # c # d # rest) =
     (let n = a * 262144 + b * 4096 + c * 64 + d
      in n div 65536 # (n div 256) mod 256 # n mod 256 # sextets_to_bytes rest)"
| "sextets_to_bytes [a, b, c] =
     (let n = (a * 4096 + b * 64 + c) div 4 in [n div 256, n mod 256])"
| "sextets_to_bytes [a, b] = [(a * 64 + b) div 16]"
| "sextets_to_bytes [a] = []"
| "sextets_to_bytes [] = []"

definition forgiving_base64_decode :: "string \<Rightarrow> string option" where
  "forgiving_base64_decode data =
     (let d = strip_padding (filter (\<lambda>c. \<not> ascii_whitespace c) data)
      in if length d mod 4 = 1 then None
         else
           (case those (map (\<lambda>c. index_of c base64_alphabet) d) of
              None \<Rightarrow> None
            | Some sextets \<Rightarrow> Some (map char_of (sextets_to_bytes sextets))))"

definition atob :: "platform \<Rightarrow> jsval \<Rightarrow> string + string" where
  "atob P data =
     (case forgiving_base64_decode (js_ToString P data) of
        None \<Rightarrow> Inl (fault_message P InvalidCharacter)
      | Some binaryStr \<Rightarrow> Inr binaryStr)"

text \<open>\<^verbatim>\<open>s.charCodeAt(i)\<close> is NaN (here \<open>None\<close>) out of range; storing into a
  \<^verbatim>\<open>Uint8Array\<close> keeps the value modulo 256 and stores 0 for NaN.\<close>

definition charCodeAt :: "string \<Rightarrow> nat \<Rightarrow> nat option" where
  "charCodeAt s i = (if i < length s then Some (of_char (s ! i)) else None)"

definition to_uint8 :: "nat option \<Rightarrow> nat" where
  "to_uint8 x = (case x of None \<Rightarrow> 0 | Some n \<Rightarrow> n mod 256)"

text \<open>The loop of the two Cloudflare files:
  \<^verbatim>\<open>for (let i = 0; i < binaryStr.length; i++) bytes[i] = binaryStr.charCodeAt(i)\<close>.\<close>

function byte_loop :: "string \<Rightarrow> nat \<Rightarrow> nat list \<Rightarrow> nat list" where
  "byte_loop binaryStr i bytes =
     (if i < length binaryStr
      then byte_loop binaryStr (Suc i) (bytes[i := to_uint8 (charCodeAt binaryStr i)])
      else bytes)"
  by pat_completeness auto
termination
  by (relation "measure (\<lambda>(binaryStr, i, bytes). length binaryStr - i)") auto

declare byte_loop.simps [simp del]

definition cf_decode_bytes :: "string \<Rightarrow> nat list" where
  "cf_decode_bytes binaryStr = byte_loop binaryStr 0 (replicate (length binaryStr) 0)"

text \<open>The Supabase file: \<^verbatim>\<open>Uint8Array.from(atob(image_data), (c) => c.charCodeAt(0))\<close>;
  the callback gets each character as a string of its own.\<close>

definition Uint8Array_from :: "string \<Rightarrow> (string \<Rightarrow> nat option) \<Rightarrow> nat list" where
  "Uint8Array_from s f = map (\<lambda>c. to_uint8 (f [c])) s"

definition supa_decode_bytes :: "string \<Rightarrow> nat list" where
  "supa_decode_bytes binaryStr = Uint8Array_from binaryStr (\<lambda>c. charCodeAt c 0)"

subsection \<open>MIME type and the upload call\<close>

text \<open>The MIME detection, the same statements in the three \<^verbatim>\<open>handleUpload\<close>
  (cf-worker-proxy.js 153 to 162, cf-worker-upload.js 87 to 96,
  supabase-edge-proxy.ts 147 to 156); the argument is \<^verbatim>\<open>lowerFilename\<close>.\<close>

definition detect_mimeType :: "string \<Rightarrow> string" where
  "detect_mimeType lowerFilename =
     (if endsWith lowerFilename ''.jpg'' \<or> endsWith lowerFilename ''.jpeg'' then ''image/jpeg''
      else if endsWith lowerFilename ''.webp'' then ''image/webp''
      else if endsWith lowerFilename ''.gif'' then ''image/gif''
      else ''image/png'')"

definition user_agent :: string where
  "user_agent = ''Sora/1.2026.007 (Android 15; 24122RKC7C; build 2600700)''"

text \<open>The form data and the options of the upload call, from the decoded bytes on
  (cf-worker-proxy.js 153 to 177). A template literal converts \<^verbatim>\<open>token\<close> to a
  string; \<^verbatim>\<open>filename\<close> is a string once \<^verbatim>\<open>toLowerCase\<close> has returned.\<close>

definition upload_options ::
  "platform \<Rightarrow> nat list \<Rightarrow> jsval \<Rightarrow> jsval \<Rightarrow> string + fetch_options" where
  "upload_options P bytes filename token =
     (case call_toLowerCase P ''filename'' filename of
        Inl e \<Rightarrow> Inl e
      | Inr lowerFilename \<Rightarrow>
          let mimeType = detect_mimeType lowerFilename;
              formData =
                [FilePart ''file'' bytes mimeType (js_ToString P filename),
                 TextPart ''file_name'' (js_ToString P filename)]
          in Inr \<lparr>opt_method = ''POST'',
                  opt_headers =
                    JObj [(''Authorization'', JStr (''Bearer '' @ js_ToString P token)),
                          (''User-Agent'', JStr user_agent)],
                  opt_body = Some (FormBody formData)\<rparr>)"

section \<open>cf-worker-proxy.js\<close>

definition cf_proxy_jsonResponse :: "platform \<Rightarrow> jsval \<Rightarrow> nat \<Rightarrow> string + response" where
  "cf_proxy_jsonResponse P data status =
     new_Response P (Some (JSON_stringify P data)) status
       [(''Content-Type'', ''application/json''), (''Access-Control-Allow-Origin'', ''*'')]"

definition cf_proxy_handleCORS :: "platform \<Rightarrow> string + response" where
  "cf_proxy_handleCORS P =
     new_Response P None 200
       [(''Access-Control-Allow-Origin'', ''*''),
        (''Access-Control-Allow-Methods'', ''GET, POST, OPTIONS''),
        (''Access-Control-Allow-Headers'', ''Content-Type, Authorization''),
        (''Access-Control-Max-Age'', ''86400'')]"

text \<open>Lines 84 to 97 of \<^verbatim>\<open>handleProxy\<close>: the options of the upstream call.\<close>

definition cf_proxy_fetchOptions ::
  "platform \<Rightarrow> jsval \<Rightarrow> jsval \<Rightarrow> jsval \<Rightarrow> string + fetch_options" where
  "cf_proxy_fetchOptions P method headers body =
     (case call_toUpperCase P ''method'' method of
        Inl e \<Rightarrow> Inl e
      | Inr upper \<Rightarrow>
          let fetchOptions =
                \<lparr>opt_method = upper,
                 opt_headers = (if truthy headers then headers else JObj []),
                 opt_body = None\<rparr>
          in if upper = ''POST'' \<and> truthy body
             then
               let withBody = fetchOptions\<lparr>opt_body := Some (TextBody (JSON_stringify P body))\<rparr>
               in if falsy (get_prop (opt_headers withBody) ''Content-Type'')
                  then
                    (case set_prop P (opt_headers withBody) ''Content-Type''
                            (JStr ''application/json'') of
                       Inl e \<Rightarrow> Inl e
                     | Inr h \<Rightarrow> Inr (withBody\<lparr>opt_headers := h\<rparr>))
                  else Inr withBody
             else Inr fetchOptions)"

text \<open>Lines 99 to 114: the call, reading the answer, and the reply.\<close>

definition cf_proxy_forward :: "platform \<Rightarrow> jsval \<Rightarrow> fetch_options \<Rightarrow> outcome" where
  "cf_proxy_forward P url fetchOptions =
     (case net_fetch P url fetchOptions of
        Inl e \<Rightarrow> (Inl e, [(url, fetchOptions)])
      | Inr upstream \<Rightarrow>
          (case up_text upstream of
             Inl e \<Rightarrow> (Inl e, [(url, fetchOptions)])
           | Inr responseText \<Rightarrow>
               (cf_proxy_jsonResponse P (parse_or_wrap P responseText) (up_status upstream),
                [(url, fetchOptions)])))"

text \<open>The body of the \<^verbatim>\<open>try\<close> block of \<^verbatim>\<open>handleProxy\<close>; \<open>Inl\<close> is a thrown error.\<close>

definition cf_proxy_handleProxy_try :: "platform \<Rightarrow> string \<Rightarrow> outcome" where
  "cf_proxy_handleProxy_try P requestText =
     (case JSON_parse P requestText of
        Inl e \<Rightarrow> (Inl e, [])
      | Inr data \<Rightarrow>
          if data = JNull \<or> data = JUndefined then (Inl (fault_message P DestructureNull), [])
          else
            let method = get_prop data ''method'';
                url = get_prop data ''url'';
                headers = get_prop data ''headers'';
                body = get_prop data ''body''
            in if falsy method \<or> falsy url
               then (cf_proxy_jsonResponse P
                       (JObj [(''error'', JStr ''Missing required fields: method, url'')]) 400,
                     [])
               else
                 (case cf_proxy_fetchOptions P method headers body of
                    Inl e \<Rightarrow> (Inl e, [])
                  | Inr fetchOptions \<Rightarrow> cf_proxy_forward P url fetchOptions))"

text \<open>\<^verbatim>\<open>handleProxy\<close> with its \<^verbatim>\<open>catch\<close>. An \<open>Inl\<close> in the result would be an error
  that escapes the handler.\<close>

definition cf_proxy_handleProxy :: "platform \<Rightarrow> string \<Rightarrow> outcome" where
  "cf_proxy_handleProxy P requestText =
     (case cf_proxy_handleProxy_try P requestText of
        (Inr r, calls) \<Rightarrow> (Inr r, calls)
      | (Inl e, calls) \<Rightarrow>
          (cf_proxy_jsonResponse P
             (JObj [(''error'', JStr ''Proxy request failed''), (''message'', JStr e)]) 500,
           calls))"

definition cf_proxy_handleUpload_try :: "platform \<Rightarrow> string \<Rightarrow> outcome" where
  "cf_proxy_handleUpload_try P requestText =
     (case JSON_parse P requestText of
        Inl e \<Rightarrow> (Inl e, [])
      | Inr data \<Rightarrow>
          if data = JNull \<or> data = JUndefined then (Inl (fault_message P DestructureNull), [])
          else
            let image_data = get_prop data ''image_data'';
                filename = get_prop data ''filename'';
                token = get_prop data ''token'';
                target_url = get_prop data ''target_url''
            in if falsy image_data \<or> falsy filename \<or> falsy token \<or> falsy target_url
               then (cf_proxy_jsonResponse P
                       (JObj [(''error'',
                          JStr ''Missing required fields: image_data, filename, token, target_url'')])
                       400,
                     [])
               else
                 (case atob P image_data of
                    Inl e \<Rightarrow> (Inl e, [])
                  | Inr binaryStr \<Rightarrow>
                      (case upload_options P (cf_decode_bytes binaryStr) filename token of
                         Inl e \<Rightarrow> (Inl e, [])
                       | Inr options \<Rightarrow> cf_proxy_forward P target_url options)))"

definition cf_proxy_handleUpload :: "platform \<Rightarrow> string \<Rightarrow> outcome" where
  "cf_proxy_handleUpload P requestText =
     (case cf_proxy_handleUpload_try P requestText of
        (Inr r, calls) \<Rightarrow> (Inr r, calls)
      | (Inl e, calls) \<Rightarrow>
          (cf_proxy_jsonResponse P
             (JObj [(''error'', JStr ''Upload failed''), (''message'', JStr e)]) 500,
           calls))"

text \<open>The exported \<^verbatim>\<open>fetch(request, env, ctx)\<close>: the router. The health and the
  not-found replies are built by hand, with one header.\<close>

definition cf_proxy_fetch :: "platform \<Rightarrow> request \<Rightarrow> outcome" where
  "cf_proxy_fetch P request =
     (if req_method request = ''OPTIONS'' then (cf_proxy_handleCORS P, [])
      else if req_pathname request = ''/proxy'' \<and> req_method request = ''POST''
        then cf_proxy_handleProxy P (req_text request)
      else if req_pathname request = ''/upload'' \<and> req_method request = ''POST''
        then cf_proxy_handleUpload P (req_text request)
      else if req_pathname request = ''/health''
        then (new_Response P
                (Some (JSON_stringify P
                   (JObj [(''status'', JStr ''ok''), (''timestamp'', JStr (now_ISO P))])))
                200 [(''Content-Type'', ''application/json'')],
              [])
      else (new_Response P (Some (JSON_stringify P (JObj [(''error'', JStr ''Not Found'')])))
              404 [(''Content-Type'', ''application/json'')],
            []))"

section \<open>cf-worker-upload.js\<close>

definition cf_upload_jsonResponse :: "platform \<Rightarrow> jsval \<Rightarrow> nat \<Rightarrow> string + response" where
  "cf_upload_jsonResponse P data status =
     new_Response P (Some (JSON_stringify P data)) status
       [(''Content-Type'', ''application/json''), (''Access-Control-Allow-Origin'', ''*'')]"

definition cf_upload_handleCORS :: "platform \<Rightarrow> string + response" where
  "cf_upload_handleCORS P =
     new_Response P None 200
       [(''Access-Control-Allow-Origin'', ''*''),
        (''Access-Control-Allow-Methods'', ''GET, POST, OPTIONS''),
        (''Access-Control-Allow-Headers'', ''Content-Type, Authorization''),
        (''Access-Control-Max-Age'', ''86400'')]"

text \<open>Lines 103 to 124 of \<^verbatim>\<open>handleUpload\<close>.\<close>

definition cf_upload_forward :: "platform \<Rightarrow> jsval \<Rightarrow> fetch_options \<Rightarrow> outcome" where
  "cf_upload_forward P url fetchOptions =
     (case net_fetch P url fetchOptions of
        Inl e \<Rightarrow> (Inl e, [(url, fetchOptions)])
      | Inr upstream \<Rightarrow>
          (case up_text upstream of
             Inl e \<Rightarrow> (Inl e, [(url, fetchOptions)])
           | Inr responseText \<Rightarrow>
               (cf_upload_jsonResponse P (parse_or_wrap P responseText) (up_status upstream),
                [(url, fetchOptions)])))"

definition cf_upload_handleUpload_try :: "platform \<Rightarrow> string \<Rightarrow> outcome" where
  "cf_upload_handleUpload_try P requestText =
     (case JSON_parse P requestText of
        Inl e \<Rightarrow> (Inl e, [])
      | Inr data \<Rightarrow>
          if data = JNull \<or> data = JUndefined then (Inl (fault_message P DestructureNull), [])
          else
            let image_data = get_prop data ''image_data'';
                filename = get_prop data ''filename'';
                token = get_prop data ''token'';
                target_url = get_prop data ''target_url''
            in if falsy image_data \<or> falsy filename \<or> falsy token \<or> falsy target_url
               then (cf_upload_jsonResponse P
                       (JObj [(''error'',
                          JStr ''Missing required fields: image_data, filename, token, target_url'')])
                       400,
                     [])
               else
                 (case atob P image_data of
                    Inl e \<Rightarrow> (Inl e, [])
                  | Inr binaryStr \<Rightarrow>
                      (case upload_options P (cf_decode_bytes binaryStr) filename token of
                         Inl e \<Rightarrow> (Inl e, [])
                       | Inr options \<Rightarrow> cf_upload_forward P target_url options)))"

definition cf_upload_handleUpload :: "platform \<Rightarrow> string \<Rightarrow> outcome" where
  "cf_upload_handleUpload P requestText =
     (case cf_upload_handleUpload_try P requestText of
        (Inr r, calls) \<Rightarrow> (Inr r, calls)
      | (Inl e, calls) \<Rightarrow>
          (cf_upload_jsonResponse P
             (JObj [(''error'', JStr ''Upload failed''), (''message'', JStr e)]) 500,
           calls))"

definition cf_upload_fetch :: "platform \<Rightarrow> request \<Rightarrow> outcome" where
  "cf_upload_fetch P request =
     (if req_method request = ''OPTIONS'' then (cf_upload_handleCORS P, [])
      else if req_pathname request = ''/upload'' \<and> req_method request = ''POST''
        then cf_upload_handleUpload P (req_text request)
      else if req_pathname request = ''/health''
        then (new_Response P
                (Some (JSON_stringify P
                   (JObj [(''status'', JStr ''ok''), (''timestamp'', JStr (now_ISO P))])))
                200 [(''Content-Type'', ''application/json'')],
              [])
      else (new_Response P (Some (JSON_stringify P (JObj [(''error'', JStr ''Not Found'')])))
              404 [(''Content-Type'', ''application/json'')],
            []))"

section \<open>supabase-edge-proxy.ts\<close>

definition corsHeaders :: "(string \<times> string) list" where
  "corsHeaders =
     [(''Access-Control-Allow-Origin'', ''*''),
      (''Access-Control-Allow-Methods'', ''GET, POST, OPTIONS''),
      (''Access-Control-Allow-Headers'', ''Content-Type, Authorization''),
      (''Access-Control-Max-Age'', ''86400'')]"

definition supa_handleCORS :: "platform \<Rightarrow> string + response" where
  "supa_handleCORS P = new_Response P None 200 corsHeaders"

definition supa_jsonResponse :: "platform \<Rightarrow> jsval \<Rightarrow> nat \<Rightarrow> string + response" where
  "supa_jsonResponse P data status =
     new_Response P (Some (JSON_stringify P data)) status
       ((''Content-Type'', ''application/json'') # corsHeaders)"

text \<open>Lines 74 to 87 of \<^verbatim>\<open>handleProxy\<close>; the test before the injection has one
  disjunct more than in the Cloudflare file.\<close>

definition supa_fetchOptions ::
  "platform \<Rightarrow> jsval \<Rightarrow> jsval \<Rightarrow> jsval \<Rightarrow> string + fetch_options" where
  "supa_fetchOptions P method headers body =
     (case call_toUpperCase P ''method'' method of
        Inl e \<Rightarrow> Inl e
      | Inr upper \<Rightarrow>
          let fetchOptions =
                \<lparr>opt_method = upper,
                 opt_headers = (if truthy headers then headers else JObj []),
                 opt_body = None\<rparr>
          in if upper = ''POST'' \<and> truthy body
             then
               let withBody = fetchOptions\<lparr>opt_body := Some (TextBody (JSON_stringify P body))\<rparr>
               in if falsy (opt_headers withBody)
                     \<or> falsy (get_prop (opt_headers withBody) ''Content-Type'')
                  then
                    (case set_prop P (opt_headers withBody) ''Content-Type''
                            (JStr ''application/json'') of
                       Inl e \<Rightarrow> Inl e
                     | Inr h \<Rightarrow> Inr (withBody\<lparr>opt_headers := h\<rparr>))
                  else Inr withBody
             else Inr fetchOptions)"

text \<open>Lines 89 to 104 of \<^verbatim>\<open>handleProxy\<close>, and 163 to 184 of \<^verbatim>\<open>handleUpload\<close>.\<close>

definition supa_forward :: "platform \<Rightarrow> jsval \<Rightarrow> fetch_options \<Rightarrow> outcome" where
  "supa_forward P url fetchOptions =
     (case net_fetch P url fetchOptions of
        Inl e \<Rightarrow> (Inl e, [(url, fetchOptions)])
      | Inr upstream \<Rightarrow>
          (case up_text upstream of
             Inl e \<Rightarrow> (Inl e, [(url, fetchOptions)])
           | Inr responseText \<Rightarrow>
               (supa_jsonResponse P (parse_or_wrap P responseText) (up_status upstream),
                [(url, fetchOptions)])))"

definition supa_handleProxy_try :: "platform \<Rightarrow> string \<Rightarrow> outcome" where
  "supa_handleProxy_try P requestText =
     (case JSON_parse P requestText of
        Inl e \<Rightarrow> (Inl e, [])
      | Inr data \<Rightarrow>
          if data = JNull \<or> data = JUndefined then (Inl (fault_message P DestructureNull), [])
          else
            let method = get_prop data ''method'';
                url = get_prop data ''url'';
                headers = get_prop data ''headers'';
                body = get_prop data ''body''
            in if falsy method \<or> falsy url
               then (supa_jsonResponse P
                       (JObj [(''error'', JStr ''Missing required fields: method, url'')]) 400,
                     [])
               else
                 (case supa_fetchOptions P method headers body of
                    Inl e \<Rightarrow> (Inl e, [])
                  | Inr fetchOptions \<Rightarrow> supa_forward P url fetchOptions))"

text \<open>The \<^verbatim>\<open>catch\<close> reads \<^verbatim>\<open>error instanceof Error ? error.message : String(error)\<close>;
  every error thrown in the \<^verbatim>\<open>try\<close> block is an instance of \<^verbatim>\<open>Error\<close>, so this is
  its message.\<close>

definition supa_handleProxy :: "platform \<Rightarrow> string \<Rightarrow> outcome" where
  "supa_handleProxy P requestText =
     (case supa_handleProxy_try P requestText of
        (Inr r, calls) \<Rightarrow> (Inr r, calls)
      | (Inl e, calls) \<Rightarrow>
          (supa_jsonResponse P
             (JObj [(''error'', JStr ''Proxy request failed''), (''message'', JStr e)]) 500,
           calls))"

definition supa_handleUpload_try :: "platform \<Rightarrow> string \<Rightarrow> outcome" where
  "supa_handleUpload_try P requestText =
     (case JSON_parse P requestText of
        Inl e \<Rightarrow> (Inl e, [])
      | Inr data \<Rightarrow>
          if data = JNull \<or> data = JUndefined then (Inl (fault_message P DestructureNull), [])
          else
            let image_data = get_prop data ''image_data'';
                filename = get_prop data ''filename'';
                token = get_prop data ''token'';
                target_url = get_prop data ''target_url''
            in if falsy image_data \<or> falsy filename \<or> falsy token \<or> falsy target_url
               then (supa_jsonResponse P
                       (JObj [(''error'',
                          JStr ''Missing required fields: image_data, filename, token, target_url'')])
                       400,
                     [])
               else
                 (case atob P image_data of
                    Inl e \<Rightarrow> (Inl e, [])
                  | Inr binaryStr \<Rightarrow>
                      (case upload_options P (supa_decode_bytes binaryStr) filename token of
                         Inl e \<Rightarrow> (Inl e, [])
                       | Inr options \<Rightarrow> supa_forward P target_url options)))"

definition supa_handleUpload :: "platform \<Rightarrow> string \<Rightarrow> outcome" where
  "supa_handleUpload P requestText =
     (case supa_handleUpload_try P requestText of
        (Inr r, calls) \<Rightarrow> (Inr r, calls)
      | (Inl e, calls) \<Rightarrow>
          (supa_jsonResponse P
             (JObj [(''error'', JStr ''Upload failed''), (''message'', JStr e)]) 500,
           calls))"

text \<open>The function given to \<^verbatim>\<open>serve\<close>: the router, by the end of the path.\<close>

definition supa_serve :: "platform \<Rightarrow> request \<Rightarrow> outcome" where
  "supa_serve P req =
     (if req_method req = ''OPTIONS'' then (supa_handleCORS P, [])
      else if endsWith (req_pathname req) ''/proxy'' \<and> req_method req = ''POST''
        then supa_handleProxy P (req_text req)
      else if endsWith (req_pathname req) ''/upload'' \<and> req_method req = ''POST''
        then supa_handleUpload P (req_text req)
      else if endsWith (req_pathname req) ''/health''
        then (supa_jsonResponse P
                (JObj [(''status'', JStr ''ok''), (''timestamp'', JStr (now_ISO P))]) 200,
              [])
      else (supa_jsonResponse P (JObj [(''error'', JStr ''Not Found'')]) 404, []))"

section \<open>What the specification says, and projections used to state it\<close>

text \<open>The status and the body text of a reply, without its headers.\<close>

definition status_and_body :: "string + response \<Rightarrow> string + nat \<times> string option" where
  "status_and_body = map_sum id (\<lambda>r. (res_status r, res_body r))"

text \<open>A required field that is missing or empty, in the words of the specification.\<close>

definition missing_or_empty :: "jsval \<Rightarrow> string \<Rightarrow> bool" where
  "missing_or_empty data k = (get_prop data k = JUndefined \<or> get_prop data k = JStr [])"

text \<open>
  The table of section 4.2 of the specification, read top to bottom, the first match
  winning, with the default otherwise.
\<close>

definition mime_table :: "(string list \<times> string) list" where
  "mime_table =
     [([''.jpg'', ''.jpeg''], ''image/jpeg''),
      ([''.webp''], ''image/webp''),
      ([''.gif''], ''image/gif'')]"

definition first_match_mime :: "string \<Rightarrow> string" where
  "first_match_mime lowered =
     (case find (\<lambda>(extensions, mime). list_ex (endsWith lowered) extensions) mime_table of
        Some (extensions, mime) \<Rightarrow> mime
      | None \<Rightarrow> ''image/png'')"

text \<open>
  The upstream call of the generic relay as the specification words it: the method in
  upper case, the caller's headers (none when absent), a body exactly when the method is
  POST and a body is supplied, and then \<^verbatim>\<open>Content-Type: application/json\<close> added exactly
  when the caller named no \<^verbatim>\<open>Content-Type\<close> header. The name of an HTTP header is read
  without regard to the case of its letters.
\<close>

definition names_content_type :: "string \<Rightarrow> bool" where
  "names_content_type k = (toLowerCase k = ''content-type'')"

definition spec_relay_options ::
  "platform \<Rightarrow> string \<Rightarrow> (string \<times> jsval) list \<Rightarrow> jsval \<Rightarrow> fetch_options" where
  "spec_relay_options P method headers body =
     (let attach = (String_toUpperCase P method = ''POST'' \<and> body \<noteq> JUndefined)
      in \<lparr>opt_method = String_toUpperCase P method,
          opt_headers =
            JObj (if attach \<and> list_all (\<lambda>(k, v). \<not> names_content_type k) headers
                  then headers @ [(''Content-Type'', JStr ''application/json'')]
                  else headers),
          opt_body = (if attach then Some (TextBody (JSON_stringify P body)) else None)\<rparr>)"

text \<open>The caller either gives no \<^verbatim>\<open>Content-Type\<close> header or spells its name exactly so.\<close>

definition spelled_exactly :: "(string \<times> jsval) list \<Rightarrow> bool" where
  "spelled_exactly headers =
     list_all (\<lambda>(k, v). names_content_type k \<longrightarrow> k = ''Content-Type'') headers"

text \<open>The three CORS headers that only the replies of the Supabase file carry, added to
  a reply and to the reply of an outcome.\<close>

definition extra_cors :: "response \<Rightarrow> response" where
  "extra_cors r = r\<lparr>res_headers := res_headers r @ tl corsHeaders\<rparr>"

definition with_extra_cors :: "outcome \<Rightarrow> outcome" where
  "with_extra_cors out = (map_sum id extra_cors (fst out), snd out)"

text \<open>A reply that carries both \<^verbatim>\<open>Content-Type: application/json\<close> and
  \<^verbatim>\<open>Access-Control-Allow-Origin: *\<close>.\<close>

definition json_and_cors :: "response \<Rightarrow> bool" where
  "json_and_cors r =
     (map_of (res_headers r) ''Content-Type'' = Some ''application/json''
      \<and> map_of (res_headers r) ''Access-Control-Allow-Origin'' = Some ''*'')"

section \<open>A sample platform\<close>

text \<open>
  A small concrete platform, to run the handlers on sample requests. Its JSON functions
  know the documents of \<open>sample_documents\<close> and no others; its string conversion is
  that of JavaScript on booleans, \<^verbatim>\<open>null\<close> and objects, and the samples convert nothing
  else; its \<^verbatim>\<open>toUpperCase\<close> is that of JavaScript on ASCII text, and the samples have no
  other method; its network answers by the URL.
\<close>

definition sample_documents :: "(string \<times> jsval) list" where
  \<open>sample_documents =
     [(''{"method":"post","url":"https://example.test/echo","body":{"a":1}}'',
         JObj [(''method'', JStr ''post''), (''url'', JStr ''https://example.test/echo''),
               (''body'', JObj [(''a'', JNum 1)])]),
      (''{"method":"POST","url":"https://example.test/echo","body":0}'',
         JObj [(''method'', JStr ''POST''), (''url'', JStr ''https://example.test/echo''),
               (''body'', JNum 0)]),
      (''{"method":"POST","url":"https://example.test/echo","headers":{"Content-Type":""},"body":{"a":1}}'',
         JObj [(''method'', JStr ''POST''), (''url'', JStr ''https://example.test/echo''),
               (''headers'', JObj [(''Content-Type'', JStr [])]),
               (''body'', JObj [(''a'', JNum 1)])]),
      (''{"method":"GET","url":"https://example.test/empty"}'',
         JObj [(''method'', JStr ''GET''), (''url'', JStr ''https://example.test/empty'')]),
      (''{"method":"GET","url":"https://example.test/limited"}'',
         JObj [(''method'', JStr ''GET''), (''url'', JStr ''https://example.test/limited'')]),
      (''{"url":"https://example.test/echo"}'',
         JObj [(''url'', JStr ''https://example.test/echo'')]),
      (''{"image_data":"aGk=","filename":"photo.JPG","token":"t0k","target_url":"https://example.test/up"}'',
         JObj [(''image_data'', JStr ''aGk=''), (''filename'', JStr ''photo.JPG''),
               (''token'', JStr ''t0k''), (''target_url'', JStr ''https://example.test/up'')]),
      (''{"image_data":"a$k=","filename":"photo.JPG","token":"t0k","target_url":"https://example.test/up"}'',
         JObj [(''image_data'', JStr ''a$k=''), (''filename'', JStr ''photo.JPG''),
               (''token'', JStr ''t0k''), (''target_url'', JStr ''https://example.test/up'')]),
      (''{"image_data":"aGk=","filename":"photo.JPG","token":"","target_url":"https://example.test/up"}'',
         JObj [(''image_data'', JStr ''aGk=''), (''filename'', JStr ''photo.JPG''),
               (''token'', JStr []), (''target_url'', JStr ''https://example.test/up'')]),
      (''{"method":"GET","url":"https://example.test/hello","body":{"a":1}}'',
         JObj [(''method'', JStr ''GET''), (''url'', JStr ''https://example.test/hello''),
               (''body'', JObj [(''a'', JNum 1)])]),
      (''{"image_data":"aGk=","filename":"x.png","token":"t0k","target_url":"https://example.test/up"}'',
         JObj [(''image_data'', JStr ''aGk=''), (''filename'', JStr ''x.png''),
               (''token'', JStr ''t0k''), (''target_url'', JStr ''https://example.test/up'')]),
      (''{"a":1}'', JObj [(''a'', JNum 1)]),
      (''{"error":"rate limited"}'', JObj [(''error'', JStr ''rate limited'')]),
      (''{"id":"file_1"}'', JObj [(''id'', JStr ''file_1'')]),
      (''{"raw_response":""}'', JObj [(''raw_response'', JStr [])]),
      (''{"raw_response":"hello"}'', JObj [(''raw_response'', JStr ''hello'')])]\<close>

definition sample_parse :: "string \<Rightarrow> string + jsval" where
  "sample_parse t =
     (case map_of sample_documents t of
        Some v \<Rightarrow> Inr v
      | None \<Rightarrow> Inl ''Unexpected token'')"

definition sample_stringify :: "jsval \<Rightarrow> string" where
  "sample_stringify v =
     (case find (\<lambda>(t, w). w = v) sample_documents of
        Some (t, w) \<Rightarrow> t
      | None \<Rightarrow> ''null'')"

definition sample_ToString :: "jsval \<Rightarrow> string" where
  "sample_ToString v =
     (case v of
        JBool b \<Rightarrow> (if b then ''true'' else ''false'')
      | JNull \<Rightarrow> ''null''
      | JObj ps \<Rightarrow> ''[object Object]''
      | _ \<Rightarrow> ''undefined'')"

definition sample_upper_char :: "char \<Rightarrow> char" where
  "sample_upper_char c =
     (case map_of (zip ''abcdefghijklmnopqrstuvwxyz'' ''ABCDEFGHIJKLMNOPQRSTUVWXYZ'') c of
        Some u \<Rightarrow> u | None \<Rightarrow> c)"

definition sample_toUpperCase :: "string \<Rightarrow> string" where
  "sample_toUpperCase s = map sample_upper_char s"

definition sample_fetch :: "jsval \<Rightarrow> fetch_options \<Rightarrow> string + upstream_response" where
  \<open>sample_fetch url options =
     (if url = JStr ''https://example.test/empty''
        then Inr \<lparr>up_status = 204, up_text = Inr []\<rparr>
      else if url = JStr ''https://example.test/limited''
        then Inr \<lparr>up_status = 429, up_text = Inr ''{"error":"rate limited"}''\<rparr>
      else if url = JStr ''https://example.test/hello''
        then Inr \<lparr>up_status = 200, up_text = Inr ''hello''\<rparr>
      else if url = JStr ''https://example.test/echo''
        then Inr \<lparr>up_status = 200, up_text = Inr ''{"a":1}''\<rparr>
      else if url = JStr ''https://example.test/up''
        then Inr \<lparr>up_status = 200, up_text = Inr ''{"id":"file_1"}''\<rparr>
      else Inl ''connection refused'')\<close>

definition sample_message :: "fault \<Rightarrow> string" where
  "sample_message f =
     (case f of
        DestructureNull \<Rightarrow> ''Cannot destructure property of null''
      | NotAFunction name \<Rightarrow> name @ '' is not a function''
      | AssignOnPrimitive \<Rightarrow> ''Cannot create property on a primitive''
      | InvalidCharacter \<Rightarrow> ''Invalid character''
      | StatusOutOfRange \<Rightarrow> ''Status out of range''
      | NullBodyStatusWithBody \<Rightarrow> ''Response with null body status cannot have body'')"

definition sample_platform :: platform where
  "sample_platform =
     \<lparr>JSON_parse = sample_parse,
      JSON_stringify = sample_stringify,
      ToString = sample_ToString,
      String_toUpperCase = sample_toUpperCase,
      net_fetch = sample_fetch,
      fault_message = sample_message,
      now_ISO = ''2026-01-01T00:00:00.000Z''\<rparr>"

section \<open>Properties\<close>

subsection \<open>Replies\<close>

lemma falsy_iff: "falsy v = (\<not> truthy v)"
  by (cases v) auto

lemma jsonResponse_400_500:
  "cf_proxy_jsonResponse P d 400
     = Inr \<lparr>res_status = 400,
            res_headers = [(''Content-Type'', ''application/json''),
                           (''Access-Control-Allow-Origin'', ''*'')],
            res_body = Some (JSON_stringify P d)\<rparr>"
  "cf_proxy_jsonResponse P d 500
     = Inr \<lparr>res_status = 500,
            res_headers = [(''Content-Type'', ''application/json''),
                           (''Access-Control-Allow-Origin'', ''*'')],
            res_body = Some (JSON_stringify P d)\<rparr>"
  "cf_upload_jsonResponse P d 400
     = Inr \<lparr>res_status = 400,
            res_headers = [(''Content-Type'', ''application/json''),
                           (''Access-Control-Allow-Origin'', ''*'')],
            res_body = Some (JSON_stringify P d)\<rparr>"
  "cf_upload_jsonResponse P d 500
     = Inr \<lparr>res_status = 500,
            res_headers = [(''Content-Type'', ''application/json''),
                           (''Access-Control-Allow-Origin'', ''*'')],
            res_body = Some (JSON_stringify P d)\<rparr>"
  "supa_jsonResponse P d 400
     = Inr \<lparr>res_status = 400,
            res_headers = (''Content-Type'', ''application/json'') # corsHeaders,
            res_body = Some (JSON_stringify P d)\<rparr>"
  "supa_jsonResponse P d 500
     = Inr \<lparr>res_status = 500,
            res_headers = (''Content-Type'', ''application/json'') # corsHeaders,
            res_body = Some (JSON_stringify P d)\<rparr>"
  by (simp_all add: cf_proxy_jsonResponse_def cf_upload_jsonResponse_def supa_jsonResponse_def
      new_Response_def null_body_status_def)

subsection \<open>A request body that is not JSON\<close>

text \<open>
  Claim C10. When the body text of a request to \<^verbatim>\<open>/proxy\<close> or \<^verbatim>\<open>/upload\<close> is not valid
  JSON, \<^verbatim>\<open>request.json()\<close> throws inside the \<^verbatim>\<open>try\<close> block, before the validation:
  the reply has status 500 (not 400), its error is \<^verbatim>\<open>Proxy request failed\<close> or
  \<^verbatim>\<open>Upload failed\<close> with the parser's message, and \<^verbatim>\<open>fetch\<close> is never called. This
  holds for the five handlers of the three files.
\<close>

theorem invalid_json_request_is_500:
  assumes "JSON_parse P requestText = Inl e"
  shows "status_and_body (fst (cf_proxy_handleProxy P requestText))
           = Inr (500, Some (JSON_stringify P
               (JObj [(''error'', JStr ''Proxy request failed''), (''message'', JStr e)])))
       \<and> snd (cf_proxy_handleProxy P requestText) = []
       \<and> status_and_body (fst (supa_handleProxy P requestText))
           = Inr (500, Some (JSON_stringify P
               (JObj [(''error'', JStr ''Proxy request failed''), (''message'', JStr e)])))
       \<and> snd (supa_handleProxy P requestText) = []
       \<and> status_and_body (fst (cf_proxy_handleUpload P requestText))
           = Inr (500, Some (JSON_stringify P
               (JObj [(''error'', JStr ''Upload failed''), (''message'', JStr e)])))
       \<and> snd (cf_proxy_handleUpload P requestText) = []
       \<and> status_and_body (fst (cf_upload_handleUpload P requestText))
           = Inr (500, Some (JSON_stringify P
               (JObj [(''error'', JStr ''Upload failed''), (''message'', JStr e)])))
       \<and> snd (cf_upload_handleUpload P requestText) = []
       \<and> status_and_body (fst (supa_handleUpload P requestText))
           = Inr (500, Some (JSON_stringify P
               (JObj [(''error'', JStr ''Upload failed''), (''message'', JStr e)])))
       \<and> snd (supa_handleUpload P requestText) = []"
  using assms
  by (simp add: cf_proxy_handleProxy_def cf_proxy_handleProxy_try_def
      supa_handleProxy_def supa_handleProxy_try_def
      cf_proxy_handleUpload_def cf_proxy_handleUpload_try_def
      cf_upload_handleUpload_def cf_upload_handleUpload_try_def
      supa_handleUpload_def supa_handleUpload_try_def jsonResponse_400_500
      status_and_body_def)

lemma sample_parse_nonsense:
  "JSON_parse sample_platform ''nonsense'' = Inl ''Unexpected token''"
  by (simp add: sample_platform_def sample_parse_def sample_documents_def)

text \<open>Claim C10 on the sample platform, for the body text \<^verbatim>\<open>nonsense\<close>.\<close>

theorem invalid_json_request_witness:
  "JSON_parse sample_platform ''nonsense'' = Inl ''Unexpected token''
   \<and> status_and_body (fst (cf_proxy_handleProxy sample_platform ''nonsense''))
       = Inr (500, Some (JSON_stringify sample_platform
           (JObj [(''error'', JStr ''Proxy request failed''),
                  (''message'', JStr ''Unexpected token'')])))
   \<and> snd (cf_proxy_handleProxy sample_platform ''nonsense'') = []
   \<and> status_and_body (fst (supa_handleUpload sample_platform ''nonsense''))
       = Inr (500, Some (JSON_stringify sample_platform
           (JObj [(''error'', JStr ''Upload failed''),
                  (''message'', JStr ''Unexpected token'')])))
   \<and> snd (supa_handleUpload sample_platform ''nonsense'') = []"
  using invalid_json_request_is_500 [OF sample_parse_nonsense] sample_parse_nonsense
  by simp

subsection \<open>Validation\<close>

lemma missing_or_empty_falsy: "missing_or_empty data k \<Longrightarrow> falsy (get_prop data k)"
  by (auto simp: missing_or_empty_def)

text \<open>
  Claim C4. When the envelope (the JSON object of the request body) has a required
  field missing or empty, that is \<^verbatim>\<open>method\<close> or \<^verbatim>\<open>url\<close> for the generic relay and any
  of \<^verbatim>\<open>image_data\<close>, \<^verbatim>\<open>filename\<close>, \<^verbatim>\<open>token\<close>, \<^verbatim>\<open>target_url\<close> for the upload relay,
  the reply has status 400 with the field-listing message of that operation, and
  \<^verbatim>\<open>fetch\<close> is never called.
\<close>

theorem missing_field_is_400:
  assumes "JSON_parse P requestText = Inr (JObj props)"
  shows "(missing_or_empty (JObj props) ''method'' \<or> missing_or_empty (JObj props) ''url''
          \<longrightarrow>
            status_and_body (fst (cf_proxy_handleProxy P requestText))
              = Inr (400, Some (JSON_stringify P
                  (JObj [(''error'', JStr ''Missing required fields: method, url'')])))
          \<and> snd (cf_proxy_handleProxy P requestText) = []
          \<and> status_and_body (fst (supa_handleProxy P requestText))
              = Inr (400, Some (JSON_stringify P
                  (JObj [(''error'', JStr ''Missing required fields: method, url'')])))
          \<and> snd (supa_handleProxy P requestText) = [])
       \<and> (missing_or_empty (JObj props) ''image_data''
            \<or> missing_or_empty (JObj props) ''filename''
            \<or> missing_or_empty (JObj props) ''token''
            \<or> missing_or_empty (JObj props) ''target_url''
          \<longrightarrow>
            status_and_body (fst (cf_proxy_handleUpload P requestText))
              = Inr (400, Some (JSON_stringify P (JObj [(''error'',
                  JStr ''Missing required fields: image_data, filename, token, target_url'')])))
          \<and> snd (cf_proxy_handleUpload P requestText) = []
          \<and> status_and_body (fst (cf_upload_handleUpload P requestText))
              = Inr (400, Some (JSON_stringify P (JObj [(''error'',
                  JStr ''Missing required fields: image_data, filename, token, target_url'')])))
          \<and> snd (cf_upload_handleUpload P requestText) = []
          \<and> status_and_body (fst (supa_handleUpload P requestText))
              = Inr (400, Some (JSON_stringify P (JObj [(''error'',
                  JStr ''Missing required fields: image_data, filename, token, target_url'')])))
          \<and> snd (supa_handleUpload P requestText) = [])"
  using assms
  by (auto simp: missing_or_empty_def Let_def jsonResponse_400_500 status_and_body_def
      cf_proxy_handleProxy_def cf_proxy_handleProxy_try_def
      supa_handleProxy_def supa_handleProxy_try_def
      cf_proxy_handleUpload_def cf_proxy_handleUpload_try_def
      cf_upload_handleUpload_def cf_upload_handleUpload_try_def
      supa_handleUpload_def supa_handleUpload_try_def)

lemma sample_parse_no_method:
  \<open>JSON_parse sample_platform ''{"url":"https://example.test/echo"}''
     = Inr (JObj [(''url'', JStr ''https://example.test/echo'')])\<close>
  by (simp add: sample_platform_def sample_parse_def sample_documents_def)

lemma sample_parse_empty_token:
  \<open>JSON_parse sample_platform
      ''{"image_data":"aGk=","filename":"photo.JPG","token":"","target_url":"https://example.test/up"}''
     = Inr (JObj [(''image_data'', JStr ''aGk=''), (''filename'', JStr ''photo.JPG''),
                  (''token'', JStr []), (''target_url'', JStr ''https://example.test/up'')])\<close>
  by (simp add: sample_platform_def sample_parse_def sample_documents_def)

text \<open>Claim C4 on the sample platform: a relay request without \<^verbatim>\<open>method\<close>, and an
  upload request whose \<^verbatim>\<open>token\<close> is the empty string.\<close>

theorem missing_field_witness:
  \<open>missing_or_empty (JObj [(''url'', JStr ''https://example.test/echo'')]) ''method''
   \<and> status_and_body (fst (cf_proxy_handleProxy sample_platform
          ''{"url":"https://example.test/echo"}''))
       = Inr (400, Some (JSON_stringify sample_platform
           (JObj [(''error'', JStr ''Missing required fields: method, url'')])))
   \<and> snd (cf_proxy_handleProxy sample_platform ''{"url":"https://example.test/echo"}'') = []
   \<and> missing_or_empty
         (JObj [(''image_data'', JStr ''aGk=''), (''filename'', JStr ''photo.JPG''),
                (''token'', JStr []), (''target_url'', JStr ''https://example.test/up'')])
         ''token''
   \<and> status_and_body (fst (cf_upload_handleUpload sample_platform
          ''{"image_data":"aGk=","filename":"photo.JPG","token":"","target_url":"https://example.test/up"}''))
       = Inr (400, Some (JSON_stringify sample_platform (JObj [(''error'',
           JStr ''Missing required fields: image_data, filename, token, target_url'')])))
   \<and> snd (cf_upload_handleUpload sample_platform
          ''{"image_data":"aGk=","filename":"photo.JPG","token":"","target_url":"https://example.test/up"}'')
       = []\<close>
proof -
  have a: "missing_or_empty (JObj [(''url'', JStr ''https://example.test/echo'')]) ''method''"
    by (simp add: missing_or_empty_def)
  have b: "missing_or_empty
         (JObj [(''image_data'', JStr ''aGk=''), (''filename'', JStr ''photo.JPG''),
                (''token'', JStr []), (''target_url'', JStr ''https://example.test/up'')])
         ''token''"
    by (simp add: missing_or_empty_def)
  show ?thesis
    using missing_field_is_400 [OF sample_parse_no_method]
      missing_field_is_400 [OF sample_parse_empty_token] a b
    by blast
qed

subsection \<open>The decoded bytes\<close>

lemma of_char_byte: "to_uint8 (Some (of_char c)) = of_char c"
  by (simp add: to_uint8_def)

lemma byte_loop_eq:
  "i \<le> length s \<Longrightarrow> length bs = length s \<Longrightarrow>
   byte_loop s i bs = take i bs @ map of_char (drop i s)"
proof (induction s i bs rule: byte_loop.induct)
  case (1 binaryStr i bytes)
  show ?case
  proof (cases "i < length binaryStr")
    case True
    let ?v = "to_uint8 (charCodeAt binaryStr i)"
    have v: "?v = of_char (binaryStr ! i)"
      using True by (simp add: charCodeAt_def of_char_byte)
    have "byte_loop binaryStr i bytes = byte_loop binaryStr (Suc i) (bytes[i := ?v])"
      using True by (subst byte_loop.simps) simp
    also have "\<dots> = take (Suc i) (bytes[i := ?v]) @ map of_char (drop (Suc i) binaryStr)"
      using "1.IH" [OF True] True "1.prems" by simp
    also have "take (Suc i) (bytes[i := ?v]) = take i bytes @ [?v]"
      using True "1.prems" by (simp add: take_Suc_conv_app_nth)
    also have "(take i bytes @ [?v]) @ map of_char (drop (Suc i) binaryStr)
                 = take i bytes @ map of_char (drop i binaryStr)"
      using True v by (simp add: Cons_nth_drop_Suc [symmetric])
    finally show ?thesis .
  next
    case False
    then show ?thesis using "1.prems" by (subst byte_loop.simps) simp
  qed
qed

lemma cf_decode_bytes_eq: "cf_decode_bytes s = map of_char s"
  by (simp add: cf_decode_bytes_def byte_loop_eq)

lemma supa_decode_bytes_eq: "supa_decode_bytes s = map of_char s"
  by (simp add: supa_decode_bytes_def Uint8Array_from_def charCodeAt_def of_char_byte)

subsection \<open>The upload call\<close>

lemma forward_calls:
  "snd (cf_proxy_forward P url fo) = [(url, fo)]"
  "snd (cf_upload_forward P url fo) = [(url, fo)]"
  "snd (supa_forward P url fo) = [(url, fo)]"
  by (simp_all add: cf_proxy_forward_def cf_upload_forward_def supa_forward_def
      split: sum.splits)

lemma catch_keeps_calls:
  "snd (cf_proxy_handleProxy P t) = snd (cf_proxy_handleProxy_try P t)"
  "snd (supa_handleProxy P t) = snd (supa_handleProxy_try P t)"
  "snd (cf_proxy_handleUpload P t) = snd (cf_proxy_handleUpload_try P t)"
  "snd (cf_upload_handleUpload P t) = snd (cf_upload_handleUpload_try P t)"
  "snd (supa_handleUpload P t) = snd (supa_handleUpload_try P t)"
  by (simp_all add: cf_proxy_handleProxy_def supa_handleProxy_def cf_proxy_handleUpload_def
      cf_upload_handleUpload_def supa_handleUpload_def split: prod.splits sum.splits)

lemma upload_options_strings:
  "upload_options P bytes (JStr filename) (JStr token)
     = Inr \<lparr>opt_method = ''POST'',
            opt_headers =
              JObj [(''Authorization'', JStr (''Bearer '' @ token)),
                    (''User-Agent'', JStr user_agent)],
            opt_body = Some (FormBody
              [FilePart ''file'' bytes (detect_mimeType (toLowerCase filename)) filename,
               TextPart ''file_name'' filename])\<rparr>"
  by (simp add: upload_options_def call_toLowerCase_def js_ToString_def)

text \<open>The chain of tests of the code gives the first match of the table.\<close>

lemma detect_is_first_match: "detect_mimeType lowered = first_match_mime lowered"
  by (simp add: detect_mimeType_def first_match_mime_def mime_table_def)

text \<open>
  Claim C1. For a valid upload request (the four fields are non-empty strings and
  \<^verbatim>\<open>image_data\<close> decodes as base64), each of the three \<^verbatim>\<open>handleUpload\<close> calls
  \<^verbatim>\<open>fetch\<close> exactly once, whether or not the call then succeeds: a POST to
  \<^verbatim>\<open>target_url\<close> whose headers object has the two entries \<^verbatim>\<open>Authorization\<close> (\<^verbatim>\<open>Bearer\<close>, a
  space, the token) and \<^verbatim>\<open>User-Agent\<close> (the fixed literal), and whose body is a form of
  two parts: the file part \<^verbatim>\<open>file\<close> with the decoded bytes, the filename, and as its
  type the first match of the specification's table for the lower-cased filename
  (image/jpeg for \<^verbatim>\<open>.jpg\<close> and \<^verbatim>\<open>.jpeg\<close>, image/webp for \<^verbatim>\<open>.webp\<close>, image/gif for
  \<^verbatim>\<open>.gif\<close>, image/png otherwise); and the text part \<^verbatim>\<open>file_name\<close> with the filename.
\<close>

theorem upload_call_shape:
  assumes "JSON_parse P requestText = Inr (JObj props)"
    and "get_prop (JObj props) ''image_data'' = JStr image_data" and "image_data \<noteq> []"
    and "get_prop (JObj props) ''filename'' = JStr filename" and "filename \<noteq> []"
    and "get_prop (JObj props) ''token'' = JStr token" and "token \<noteq> []"
    and "get_prop (JObj props) ''target_url'' = JStr target_url" and "target_url \<noteq> []"
    and "forgiving_base64_decode image_data = Some binaryStr"
  shows "snd (cf_proxy_handleUpload P requestText)
           = [(JStr target_url,
               \<lparr>opt_method = ''POST'',
                opt_headers =
                  JObj [(''Authorization'', JStr (''Bearer '' @ token)),
                        (''User-Agent'',
                         JStr ''Sora/1.2026.007 (Android 15; 24122RKC7C; build 2600700)'')],
                opt_body = Some (FormBody
                  [FilePart ''file'' (map of_char binaryStr)
                     (first_match_mime (toLowerCase filename)) filename,
                   TextPart ''file_name'' filename])\<rparr>)]
       \<and> snd (cf_upload_handleUpload P requestText) = snd (cf_proxy_handleUpload P requestText)
       \<and> snd (supa_handleUpload P requestText) = snd (cf_proxy_handleUpload P requestText)
       \<and> first_match_mime (toLowerCase filename)
           = (if endsWith (toLowerCase filename) ''.jpg''
                 \<or> endsWith (toLowerCase filename) ''.jpeg'' then ''image/jpeg''
              else if endsWith (toLowerCase filename) ''.webp'' then ''image/webp''
              else if endsWith (toLowerCase filename) ''.gif'' then ''image/gif''
              else ''image/png'')"
  using assms
  by (simp add: catch_keeps_calls cf_proxy_handleUpload_try_def cf_upload_handleUpload_try_def
      supa_handleUpload_try_def atob_def js_ToString_def upload_options_strings forward_calls
      cf_decode_bytes_eq supa_decode_bytes_eq user_agent_def detect_is_first_match
      first_match_mime_def mime_table_def)

lemma sample_parse_upload:
  \<open>JSON_parse sample_platform
      ''{"image_data":"aGk=","filename":"photo.JPG","token":"t0k","target_url":"https://example.test/up"}''
     = Inr (JObj [(''image_data'', JStr ''aGk=''), (''filename'', JStr ''photo.JPG''),
                  (''token'', JStr ''t0k''), (''target_url'', JStr ''https://example.test/up'')])\<close>
  by (simp add: sample_platform_def sample_parse_def sample_documents_def)

lemma sample_parse_upload_png:
  \<open>JSON_parse sample_platform
      ''{"image_data":"aGk=","filename":"x.png","token":"t0k","target_url":"https://example.test/up"}''
     = Inr (JObj [(''image_data'', JStr ''aGk=''), (''filename'', JStr ''x.png''),
                  (''token'', JStr ''t0k''), (''target_url'', JStr ''https://example.test/up'')])\<close>
  by (simp add: sample_platform_def sample_parse_def sample_documents_def)

lemma first_match_samples:
  "first_match_mime (toLowerCase ''photo.JPG'') = ''image/jpeg''"
  "first_match_mime (toLowerCase ''x.png'') = ''image/png''"
  by (simp_all add: first_match_mime_def mime_table_def toLowerCase_def lower_char_def
      endsWith_def)

lemma decode_aGk: "forgiving_base64_decode ''aGk='' = Some (map char_of [104, 105 :: nat])"
  by (simp add: forgiving_base64_decode_def strip_padding_def endsWith_def ascii_whitespace_def
      base64_alphabet_def Let_def)

text \<open>Claim C1 on the sample platform: the two bytes of \<^verbatim>\<open>aGk=\<close> uploaded as
  \<^verbatim>\<open>photo.JPG\<close>, of type image/jpeg, and as \<^verbatim>\<open>x.png\<close>, of type image/png.\<close>

theorem upload_call_witness:
  \<open>forgiving_base64_decode ''aGk='' = Some (map char_of [104, 105 :: nat])
   \<and> snd (supa_handleUpload sample_platform
          ''{"image_data":"aGk=","filename":"photo.JPG","token":"t0k","target_url":"https://example.test/up"}'')
       = [(JStr ''https://example.test/up'',
           \<lparr>opt_method = ''POST'',
            opt_headers =
              JObj [(''Authorization'', JStr ''Bearer t0k''),
                    (''User-Agent'',
                     JStr ''Sora/1.2026.007 (Android 15; 24122RKC7C; build 2600700)'')],
            opt_body = Some (FormBody
              [FilePart ''file'' [104, 105] ''image/jpeg'' ''photo.JPG'',
               TextPart ''file_name'' ''photo.JPG''])\<rparr>)]
   \<and> snd (cf_upload_handleUpload sample_platform
          ''{"image_data":"aGk=","filename":"x.png","token":"t0k","target_url":"https://example.test/up"}'')
       = [(JStr ''https://example.test/up'',
           \<lparr>opt_method = ''POST'',
            opt_headers =
              JObj [(''Authorization'', JStr ''Bearer t0k''),
                    (''User-Agent'',
                     JStr ''Sora/1.2026.007 (Android 15; 24122RKC7C; build 2600700)'')],
            opt_body = Some (FormBody
              [FilePart ''file'' [104, 105] ''image/png'' ''x.png'',
               TextPart ''file_name'' ''x.png''])\<rparr>)]\<close>
proof -
  let ?jpg = "''{\"image_data\":\"aGk=\",\"filename\":\"photo.JPG\",\"token\":\"t0k\",\"target_url\":\"https://example.test/up\"}''"
  let ?png = "''{\"image_data\":\"aGk=\",\"filename\":\"x.png\",\"token\":\"t0k\",\"target_url\":\"https://example.test/up\"}''"
  let ?call = "\<lambda>filename. [(JStr ''https://example.test/up'',
           \<lparr>opt_method = ''POST'',
            opt_headers =
              JObj [(''Authorization'', JStr (''Bearer '' @ ''t0k'')),
                    (''User-Agent'',
                     JStr ''Sora/1.2026.007 (Android 15; 24122RKC7C; build 2600700)'')],
            opt_body = Some (FormBody
              [FilePart ''file'' (map of_char (map char_of [104, 105 :: nat]))
                 (first_match_mime (toLowerCase filename)) filename,
               TextPart ''file_name'' filename])\<rparr>)]"
  let ?cases = "\<lambda>filename. first_match_mime (toLowerCase filename)
           = (if endsWith (toLowerCase filename) ''.jpg''
                 \<or> endsWith (toLowerCase filename) ''.jpeg'' then ''image/jpeg''
              else if endsWith (toLowerCase filename) ''.webp'' then ''image/webp''
              else if endsWith (toLowerCase filename) ''.gif'' then ''image/gif''
              else ''image/png'')"
  have a: "snd (cf_proxy_handleUpload sample_platform ?jpg) = ?call ''photo.JPG''
     \<and> snd (cf_upload_handleUpload sample_platform ?jpg)
        = snd (cf_proxy_handleUpload sample_platform ?jpg)
     \<and> snd (supa_handleUpload sample_platform ?jpg)
        = snd (cf_proxy_handleUpload sample_platform ?jpg)
     \<and> ?cases ''photo.JPG''"
    by (rule upload_call_shape [OF sample_parse_upload _ _ _ _ _ _ _ _ decode_aGk]) simp_all
  have b: "snd (cf_proxy_handleUpload sample_platform ?png) = ?call ''x.png''
     \<and> snd (cf_upload_handleUpload sample_platform ?png)
        = snd (cf_proxy_handleUpload sample_platform ?png)
     \<and> snd (supa_handleUpload sample_platform ?png)
        = snd (cf_proxy_handleUpload sample_platform ?png)
     \<and> ?cases ''x.png''"
    by (rule upload_call_shape [OF sample_parse_upload_png _ _ _ _ _ _ _ _ decode_aGk]) simp_all
  show ?thesis
    using a b decode_aGk by (simp add: first_match_samples)
qed

subsection \<open>Image data that does not decode\<close>

lemma those_None_iff: "those xs = None \<longleftrightarrow> None \<in> set xs"
  by (induction xs) (auto split: option.splits)

lemma endsWith_iff: "endsWith s x \<longleftrightarrow> (\<exists>p. s = p @ x)"
proof
  assume "endsWith s x"
  then have "s = take (length s - length x) s @ x"
    by (metis endsWith_def append_take_drop_id)
  then show "\<exists>p. s = p @ x" ..
next
  assume "\<exists>p. s = p @ x"
  then show "endsWith s x" by (auto simp: endsWith_def)
qed

lemma strip_padding_keeps:
  assumes "c \<in> set d" and "c \<noteq> CHR ''=''"
  shows "c \<in> set (strip_padding d)"
proof -
  have two: "c \<in> set (butlast (butlast d))" if "endsWith d ''==''"
  proof -
    from that obtain p where "d = p @ ''==''" by (auto simp: endsWith_iff)
    then show ?thesis using assms by (auto simp: butlast_append)
  qed
  have one: "c \<in> set (butlast d)" if "endsWith d ''=''"
  proof -
    from that obtain p where "d = p @ ''=''" by (auto simp: endsWith_iff)
    then show ?thesis using assms by (auto simp: butlast_append)
  qed
  show ?thesis
    using assms one two by (simp add: strip_padding_def)
qed

text \<open>The decoder fails, and does not skip or cut, on any character that is neither
  whitespace, nor \<^verbatim>\<open>=\<close>, nor of the alphabet, wherever it stands; and on a length of
  remainder one.\<close>

lemma decode_rejects_foreign_character:
  assumes "c \<in> set data" and "\<not> ascii_whitespace c" and "c \<noteq> CHR ''=''"
    and "index_of c base64_alphabet = None"
  shows "forgiving_base64_decode data = None"
proof -
  let ?d = "strip_padding (filter (\<lambda>c. \<not> ascii_whitespace c) data)"
  have "c \<in> set ?d"
    using assms by (intro strip_padding_keeps) auto
  then have "None \<in> set (map (\<lambda>c. index_of c base64_alphabet) ?d)"
    using assms(4) by force
  then have "those (map (\<lambda>c. index_of c base64_alphabet) ?d) = None"
    by (simp add: those_None_iff)
  then show ?thesis
    by (simp add: forgiving_base64_decode_def Let_def)
qed

lemma decode_rejects_length_1_mod_4:
  assumes "length (filter (\<lambda>c. \<not> ascii_whitespace c) data) mod 4 = 1"
  shows "forgiving_base64_decode data = None"
  using assms by (simp add: forgiving_base64_decode_def Let_def strip_padding_def)

text \<open>
  Claim C7. When an upload request passes the validation (its four fields are truthy)
  but \<^verbatim>\<open>image_data\<close> is not valid base64, \<^verbatim>\<open>atob\<close> throws: each of the three
  \<^verbatim>\<open>handleUpload\<close> replies 500 with the error \<^verbatim>\<open>Upload failed\<close> and the message of the
  decoding error, and \<^verbatim>\<open>fetch\<close> is never called.
\<close>

theorem undecodable_image_is_500:
  assumes "JSON_parse P requestText = Inr (JObj props)"
    and "truthy (get_prop (JObj props) ''image_data'')"
    and "truthy (get_prop (JObj props) ''filename'')"
    and "truthy (get_prop (JObj props) ''token'')"
    and "truthy (get_prop (JObj props) ''target_url'')"
    and "forgiving_base64_decode (js_ToString P (get_prop (JObj props) ''image_data'')) = None"
  shows "status_and_body (fst (cf_proxy_handleUpload P requestText))
           = Inr (500, Some (JSON_stringify P
               (JObj [(''error'', JStr ''Upload failed''),
                      (''message'', JStr (fault_message P InvalidCharacter))])))
       \<and> snd (cf_proxy_handleUpload P requestText) = []
       \<and> status_and_body (fst (cf_upload_handleUpload P requestText))
           = Inr (500, Some (JSON_stringify P
               (JObj [(''error'', JStr ''Upload failed''),
                      (''message'', JStr (fault_message P InvalidCharacter))])))
       \<and> snd (cf_upload_handleUpload P requestText) = []
       \<and> status_and_body (fst (supa_handleUpload P requestText))
           = Inr (500, Some (JSON_stringify P
               (JObj [(''error'', JStr ''Upload failed''),
                      (''message'', JStr (fault_message P InvalidCharacter))])))
       \<and> snd (supa_handleUpload P requestText) = []"
  using assms
  by (simp add: falsy_iff cf_proxy_handleUpload_def cf_proxy_handleUpload_try_def
      cf_upload_handleUpload_def cf_upload_handleUpload_try_def
      supa_handleUpload_def supa_handleUpload_try_def atob_def jsonResponse_400_500
      status_and_body_def)

lemma sample_parse_bad_image:
  \<open>JSON_parse sample_platform
      ''{"image_data":"a$k=","filename":"photo.JPG","token":"t0k","target_url":"https://example.test/up"}''
     = Inr (JObj [(''image_data'', JStr ''a$k=''), (''filename'', JStr ''photo.JPG''),
                  (''token'', JStr ''t0k''), (''target_url'', JStr ''https://example.test/up'')])\<close>
  by (simp add: sample_platform_def sample_parse_def sample_documents_def)

lemma decode_dollar: "forgiving_base64_decode ''a$k='' = None"
  by (rule decode_rejects_foreign_character [of "CHR ''$''"])
    (simp_all add: ascii_whitespace_def base64_alphabet_def)

text \<open>Claim C7 on the sample platform, for the image data \<^verbatim>\<open>a$k=\<close>.\<close>

theorem undecodable_image_witness:
  \<open>forgiving_base64_decode ''a$k='' = None
   \<and> status_and_body (fst (cf_upload_handleUpload sample_platform
        ''{"image_data":"a$k=","filename":"photo.JPG","token":"t0k","target_url":"https://example.test/up"}''))
       = Inr (500, Some (JSON_stringify sample_platform
           (JObj [(''error'', JStr ''Upload failed''),
                  (''message'', JStr ''Invalid character'')])))
   \<and> snd (cf_upload_handleUpload sample_platform
        ''{"image_data":"a$k=","filename":"photo.JPG","token":"t0k","target_url":"https://example.test/up"}'')
       = []\<close>
proof -
  have m: "fault_message sample_platform InvalidCharacter = ''Invalid character''"
    by (simp add: sample_platform_def sample_message_def)
  show ?thesis
    using undecodable_image_is_500 [OF sample_parse_bad_image] decode_dollar m
    by (simp add: js_ToString_def)
qed

subsection \<open>The MIME type\<close>

text \<open>
  Claim C3. For every filename string, the MIME type the upload relay infers is computed
  from the lower-cased filename by the first match in the order \<^verbatim>\<open>.jpg\<close> or \<^verbatim>\<open>.jpeg\<close>
  (image/jpeg), \<^verbatim>\<open>.webp\<close> (image/webp), \<^verbatim>\<open>.gif\<close> (image/gif), and is image/png
  otherwise: the chain of tests in the code computes the first match of the table of the
  specification, this is the type of the file part, and the examples of the
  specification come out as it says.
\<close>

theorem mime_is_first_match:
  "detect_mimeType (toLowerCase filename) = first_match_mime (toLowerCase filename)
   \<and> (\<forall>P bytes token. upload_options P bytes (JStr filename) (JStr token)
        = Inr \<lparr>opt_method = ''POST'',
               opt_headers =
                 JObj [(''Authorization'', JStr (''Bearer '' @ token)),
                       (''User-Agent'', JStr user_agent)],
               opt_body = Some (FormBody
                 [FilePart ''file'' bytes (first_match_mime (toLowerCase filename)) filename,
                  TextPart ''file_name'' filename])\<rparr>)
   \<and> detect_mimeType (toLowerCase ''photo.JPG'') = ''image/jpeg''
   \<and> detect_mimeType (toLowerCase ''scan.Jpeg'') = ''image/jpeg''
   \<and> detect_mimeType (toLowerCase ''icon.webp'') = ''image/webp''
   \<and> detect_mimeType (toLowerCase ''anim.gif'') = ''image/gif''
   \<and> detect_mimeType (toLowerCase ''picture.bmp'') = ''image/png''"
proof -
  have eq: "\<And>l. detect_mimeType l = first_match_mime l"
    by (simp add: detect_mimeType_def first_match_mime_def mime_table_def)
  have ex: "detect_mimeType (toLowerCase ''photo.JPG'') = ''image/jpeg''"
    "detect_mimeType (toLowerCase ''scan.Jpeg'') = ''image/jpeg''"
    "detect_mimeType (toLowerCase ''icon.webp'') = ''image/webp''"
    "detect_mimeType (toLowerCase ''anim.gif'') = ''image/gif''"
    "detect_mimeType (toLowerCase ''picture.bmp'') = ''image/png''"
    by (simp_all add: detect_mimeType_def toLowerCase_def lower_char_def endsWith_def)
  show ?thesis
    using eq ex by (simp add: upload_options_strings)
qed

subsection \<open>The call of the generic relay\<close>

lemma assign_new_key: "map_of ps k = None \<Longrightarrow> assign k v ps = ps @ [(k, v)]"
  by (induction ps) (auto split: if_splits)

lemma cf_proxy_fetchOptions_object:
  "cf_proxy_fetchOptions P (JStr method) (JObj headers) body
     = Inr \<lparr>opt_method = String_toUpperCase P method,
            opt_headers =
              JObj (if String_toUpperCase P method = ''POST'' \<and> truthy body
                       \<and> falsy (get_prop (JObj headers) ''Content-Type'')
                    then assign ''Content-Type'' (JStr ''application/json'') headers
                    else headers),
            opt_body =
              (if String_toUpperCase P method = ''POST'' \<and> truthy body
               then Some (TextBody (JSON_stringify P body)) else None)\<rparr>"
  by (simp add: cf_proxy_fetchOptions_def call_toUpperCase_def set_prop_def Let_def)

lemma cf_proxy_fetchOptions_absent:
  "cf_proxy_fetchOptions P (JStr method) JUndefined body
     = cf_proxy_fetchOptions P (JStr method) (JObj []) body"
  by (simp add: cf_proxy_fetchOptions_def call_toUpperCase_def set_prop_def Let_def)

lemma supa_fetchOptions_object:
  "supa_fetchOptions P (JStr method) (JObj headers) body
     = cf_proxy_fetchOptions P (JStr method) (JObj headers) body"
  by (simp add: supa_fetchOptions_def cf_proxy_fetchOptions_def call_toUpperCase_def
      set_prop_def Let_def)

lemma supa_fetchOptions_absent:
  "supa_fetchOptions P (JStr method) JUndefined body
     = cf_proxy_fetchOptions P (JStr method) (JObj []) body"
  by (simp add: supa_fetchOptions_def cf_proxy_fetchOptions_def call_toUpperCase_def
      set_prop_def Let_def)

text \<open>What the two \<^verbatim>\<open>handleProxy\<close> do on a valid request: the one call, and the reply
  made from its answer.\<close>

lemma relay_steps:
  assumes "JSON_parse P requestText = Inr (JObj props)"
    and "get_prop (JObj props) ''method'' = JStr method" and "method \<noteq> []"
    and "get_prop (JObj props) ''url'' = JStr url" and "url \<noteq> []"
    and "get_prop (JObj props) ''headers'' = JUndefined \<and> headers = []
         \<or> get_prop (JObj props) ''headers'' = JObj headers"
    and "get_prop (JObj props) ''body'' = body"
    and "options =
           \<lparr>opt_method = String_toUpperCase P method,
            opt_headers =
              JObj (if String_toUpperCase P method = ''POST'' \<and> truthy body
                       \<and> falsy (get_prop (JObj headers) ''Content-Type'')
                    then assign ''Content-Type'' (JStr ''application/json'') headers
                    else headers),
            opt_body =
              (if String_toUpperCase P method = ''POST'' \<and> truthy body
               then Some (TextBody (JSON_stringify P body)) else None)\<rparr>"
  shows "cf_proxy_handleProxy_try P requestText = cf_proxy_forward P (JStr url) options"
    and "supa_handleProxy_try P requestText = supa_forward P (JStr url) options"
proof -
  have cf: "cf_proxy_fetchOptions P (JStr method) (get_prop (JObj props) ''headers'') body
              = Inr options"
    using assms(6,8)
    by (auto simp: cf_proxy_fetchOptions_object cf_proxy_fetchOptions_absent)
  have su: "supa_fetchOptions P (JStr method) (get_prop (JObj props) ''headers'') body
              = Inr options"
    using assms(6,8)
    by (auto simp: supa_fetchOptions_object supa_fetchOptions_absent
        cf_proxy_fetchOptions_object)
  show "cf_proxy_handleProxy_try P requestText = cf_proxy_forward P (JStr url) options"
    using assms(1-5,7) cf by (simp add: cf_proxy_handleProxy_try_def)
  show "supa_handleProxy_try P requestText = supa_forward P (JStr url) options"
    using assms(1-5,7) su by (simp add: supa_handleProxy_try_def)
qed

lemma relay_calls:
  assumes "JSON_parse P requestText = Inr (JObj props)"
    and "get_prop (JObj props) ''method'' = JStr method" and "method \<noteq> []"
    and "get_prop (JObj props) ''url'' = JStr url" and "url \<noteq> []"
    and "get_prop (JObj props) ''headers'' = JUndefined \<and> headers = []
         \<or> get_prop (JObj props) ''headers'' = JObj headers"
    and "get_prop (JObj props) ''body'' = body"
  shows "snd (cf_proxy_handleProxy P requestText)
           = [(JStr url,
               \<lparr>opt_method = String_toUpperCase P method,
                opt_headers =
                  JObj (if String_toUpperCase P method = ''POST'' \<and> truthy body
                           \<and> falsy (get_prop (JObj headers) ''Content-Type'')
                        then assign ''Content-Type'' (JStr ''application/json'') headers
                        else headers),
                opt_body =
                  (if String_toUpperCase P method = ''POST'' \<and> truthy body
                   then Some (TextBody (JSON_stringify P body)) else None)\<rparr>)]
       \<and> snd (supa_handleProxy P requestText) = snd (cf_proxy_handleProxy P requestText)"
  using relay_steps [OF assms refl]
  by (simp add: catch_keeps_calls forward_calls)

lemma relay_reply_of_plain_answer:
  assumes "cf_proxy_handleProxy_try P requestText = cf_proxy_forward P url options"
    and "supa_handleProxy_try P requestText = supa_forward P url options"
    and "net_fetch P url options = Inr \<lparr>up_status = s, up_text = Inr t\<rparr>"
    and "200 \<le> s" and "s \<le> 599" and "\<not> null_body_status s"
  shows "status_and_body (fst (cf_proxy_handleProxy P requestText))
           = Inr (s, Some (JSON_stringify P (parse_or_wrap P t)))
       \<and> status_and_body (fst (supa_handleProxy P requestText))
           = Inr (s, Some (JSON_stringify P (parse_or_wrap P t)))"
  using assms
  by (simp add: cf_proxy_handleProxy_def supa_handleProxy_def cf_proxy_forward_def
      supa_forward_def cf_proxy_jsonResponse_def supa_jsonResponse_def new_Response_def
      status_and_body_def)

lemma named_iff_present:
  assumes "spelled_exactly headers"
  shows "list_all (\<lambda>(k, v). \<not> names_content_type k) headers
           \<longleftrightarrow> map_of headers ''Content-Type'' = None"
proof -
  have n: "names_content_type ''Content-Type''"
    by (simp add: names_content_type_def toLowerCase_def lower_char_def)
  show ?thesis
    using assms n
    by (induction headers)
      (auto simp: spelled_exactly_def split: if_splits)
qed

text \<open>
  Claim C2, amended. For every valid relay request (\<^verbatim>\<open>method\<close> and \<^verbatim>\<open>url\<close> non-empty
  strings, \<^verbatim>\<open>headers\<close> absent or an object, any \<^verbatim>\<open>body\<close>), each \<^verbatim>\<open>handleProxy\<close> calls
  \<^verbatim>\<open>fetch\<close> exactly once, on the caller's URL, with the method in upper case. A body,
  the JSON text of the caller's body, is attached if and only if the upper-cased method
  is POST and the body is truthy (supplied, and not \<^verbatim>\<open>null\<close>, \<^verbatim>\<open>false\<close>, \<^verbatim>\<open>0\<close> or the
  empty string). When no body is attached the headers are the caller's headers object
  (an empty one when absent). When a body is attached and the caller gives no
  \<^verbatim>\<open>Content-Type\<close> header or spells its name exactly so, the headers are the caller's,
  with \<^verbatim>\<open>Content-Type: application/json\<close> set exactly when the caller's \<^verbatim>\<open>Content-Type\<close> is
  absent or has a falsy (empty) value; nothing is said of the headers for another
  spelling of the name. Where in addition the body is absent or truthy and the caller's
  \<^verbatim>\<open>Content-Type\<close> is absent or truthy, the call is the one the claim describes. In
  particular a request whose method is not POST sends no body, whatever body is
  supplied, and produces no error: when the upstream answers with a status of 200..599
  that allows a body, the reply has that status and the upstream's body.
\<close>

theorem relay_call_shape:
  assumes "JSON_parse P requestText = Inr (JObj props)"
    and "get_prop (JObj props) ''method'' = JStr method" and "method \<noteq> []"
    and "get_prop (JObj props) ''url'' = JStr url" and "url \<noteq> []"
    and "get_prop (JObj props) ''headers'' = JUndefined \<and> headers = []
         \<or> get_prop (JObj props) ''headers'' = JObj headers"
    and "get_prop (JObj props) ''body'' = body"
  shows "(\<exists>sent. snd (cf_proxy_handleProxy P requestText)
           = [(JStr url,
               \<lparr>opt_method = String_toUpperCase P method,
                opt_headers = sent,
                opt_body =
                  (if String_toUpperCase P method = ''POST'' \<and> truthy body
                   then Some (TextBody (JSON_stringify P body)) else None)\<rparr>)])
       \<and> snd (supa_handleProxy P requestText) = snd (cf_proxy_handleProxy P requestText)
       \<and> (spelled_exactly headers \<or> \<not> (String_toUpperCase P method = ''POST'' \<and> truthy body)
           \<longrightarrow> snd (cf_proxy_handleProxy P requestText)
                 = [(JStr url,
                     \<lparr>opt_method = String_toUpperCase P method,
                      opt_headers =
                        JObj (if String_toUpperCase P method = ''POST'' \<and> truthy body
                                 \<and> falsy (get_prop (JObj headers) ''Content-Type'')
                              then assign ''Content-Type'' (JStr ''application/json'') headers
                              else headers),
                      opt_body =
                        (if String_toUpperCase P method = ''POST'' \<and> truthy body
                         then Some (TextBody (JSON_stringify P body)) else None)\<rparr>)])
       \<and> (spelled_exactly headers \<and> (body = JUndefined \<or> truthy body)
            \<and> (map_of headers ''Content-Type'' = None
                 \<or> truthy (get_prop (JObj headers) ''Content-Type''))
           \<longrightarrow> snd (cf_proxy_handleProxy P requestText)
                 = [(JStr url, spec_relay_options P method headers body)])
       \<and> (String_toUpperCase P method \<noteq> ''POST''
            \<and> net_fetch P (JStr url)
                 \<lparr>opt_method = String_toUpperCase P method, opt_headers = JObj headers,
                  opt_body = None\<rparr>
               = Inr \<lparr>up_status = s, up_text = Inr t\<rparr>
            \<and> 200 \<le> s \<and> s \<le> 599 \<and> \<not> null_body_status s
           \<longrightarrow> snd (cf_proxy_handleProxy P requestText)
                 = [(JStr url,
                     \<lparr>opt_method = String_toUpperCase P method, opt_headers = JObj headers,
                      opt_body = None\<rparr>)]
             \<and> status_and_body (fst (cf_proxy_handleProxy P requestText))
                 = Inr (s, Some (JSON_stringify P (parse_or_wrap P t)))
             \<and> status_and_body (fst (supa_handleProxy P requestText))
                 = Inr (s, Some (JSON_stringify P (parse_or_wrap P t))))"
proof -
  let ?opts = "\<lparr>opt_method = String_toUpperCase P method,
                opt_headers =
                  JObj (if String_toUpperCase P method = ''POST'' \<and> truthy body
                           \<and> falsy (get_prop (JObj headers) ''Content-Type'')
                        then assign ''Content-Type'' (JStr ''application/json'') headers
                        else headers),
                opt_body =
                  (if String_toUpperCase P method = ''POST'' \<and> truthy body
                   then Some (TextBody (JSON_stringify P body)) else None)\<rparr>"
  note steps = relay_steps [OF assms refl]
  have calls: "snd (cf_proxy_handleProxy P requestText) = [(JStr url, ?opts)]"
    and same: "snd (supa_handleProxy P requestText) = snd (cf_proxy_handleProxy P requestText)"
    using relay_calls [OF assms] by simp_all
  have c: "?opts = spec_relay_options P method headers body"
    if "spelled_exactly headers" and "body = JUndefined \<or> truthy body"
      and "map_of headers ''Content-Type'' = None
           \<or> truthy (get_prop (JObj headers) ''Content-Type'')"
    using that named_iff_present [OF that(1)]
    by (auto simp: spec_relay_options_def Let_def falsy_iff assign_new_key
        split: option.splits)
  have g: "status_and_body (fst (cf_proxy_handleProxy P requestText))
                 = Inr (s, Some (JSON_stringify P (parse_or_wrap P t)))
             \<and> status_and_body (fst (supa_handleProxy P requestText))
                 = Inr (s, Some (JSON_stringify P (parse_or_wrap P t)))"
    if "String_toUpperCase P method \<noteq> ''POST''"
      and "net_fetch P (JStr url)
                 \<lparr>opt_method = String_toUpperCase P method, opt_headers = JObj headers,
                  opt_body = None\<rparr>
               = Inr \<lparr>up_status = s, up_text = Inr t\<rparr>"
      and "200 \<le> s" and "s \<le> 599" and "\<not> null_body_status s"
  proof -
    from that(1) have o: "?opts = \<lparr>opt_method = String_toUpperCase P method,
        opt_headers = JObj headers, opt_body = None\<rparr>"
      by simp
    show ?thesis
      using relay_reply_of_plain_answer [OF steps [unfolded o] that(2-5)] .
  qed
  have e: "\<exists>sent. snd (cf_proxy_handleProxy P requestText)
           = [(JStr url,
               \<lparr>opt_method = String_toUpperCase P method,
                opt_headers = sent,
                opt_body =
                  (if String_toUpperCase P method = ''POST'' \<and> truthy body
                   then Some (TextBody (JSON_stringify P body)) else None)\<rparr>)]"
    using calls by blast
  show ?thesis
    using e same calls c g by auto
qed

lemma sample_parse_post:
  \<open>JSON_parse sample_platform
      ''{"method":"post","url":"https://example.test/echo","body":{"a":1}}''
     = Inr (JObj [(''method'', JStr ''post''), (''url'', JStr ''https://example.test/echo''),
                  (''body'', JObj [(''a'', JNum 1)])])\<close>
  by (simp add: sample_platform_def sample_parse_def sample_documents_def)

lemma sample_parse_get_with_body:
  \<open>JSON_parse sample_platform
      ''{"method":"GET","url":"https://example.test/hello","body":{"a":1}}''
     = Inr (JObj [(''method'', JStr ''GET''), (''url'', JStr ''https://example.test/hello''),
                  (''body'', JObj [(''a'', JNum 1)])])\<close>
  by (simp add: sample_platform_def sample_parse_def sample_documents_def)

lemma sample_parse_body_zero:
  \<open>JSON_parse sample_platform
      ''{"method":"POST","url":"https://example.test/echo","body":0}''
     = Inr (JObj [(''method'', JStr ''POST''), (''url'', JStr ''https://example.test/echo''),
                  (''body'', JNum 0)])\<close>
  by (simp add: sample_platform_def sample_parse_def sample_documents_def)

lemma sample_parse_empty_content_type:
  \<open>JSON_parse sample_platform
      ''{"method":"POST","url":"https://example.test/echo","headers":{"Content-Type":""},"body":{"a":1}}''
     = Inr (JObj [(''method'', JStr ''POST''), (''url'', JStr ''https://example.test/echo''),
                  (''headers'', JObj [(''Content-Type'', JStr [])]),
                  (''body'', JObj [(''a'', JNum 1)])])\<close>
  by (simp add: sample_platform_def sample_parse_def sample_documents_def)

lemma sample_upper:
  "String_toUpperCase sample_platform ''post'' = ''POST''"
  "String_toUpperCase sample_platform ''POST'' = ''POST''"
  "String_toUpperCase sample_platform ''GET'' = ''GET''"
  by (simp_all add: sample_platform_def sample_toUpperCase_def sample_upper_char_def)

lemma sample_fetch_hello:
  "net_fetch sample_platform (JStr ''https://example.test/hello'') options
     = Inr \<lparr>up_status = 200, up_text = Inr ''hello''\<rparr>"
  by (simp add: sample_platform_def sample_fetch_def)

lemma sample_hello_wrapped:
  "parse_or_wrap sample_platform ''hello'' = JObj [(''raw_response'', JStr ''hello'')]"
  by (simp add: parse_or_wrap_def sample_platform_def sample_parse_def sample_documents_def)

text \<open>Claim C2 on the sample platform: a \<^verbatim>\<open>post\<close> with a body and no headers, and a GET
  with a body, which is sent without it and answered with the upstream's 200.\<close>

theorem relay_call_witness:
  \<open>snd (cf_proxy_handleProxy sample_platform
          ''{"method":"post","url":"https://example.test/echo","body":{"a":1}}'')
     = [(JStr ''https://example.test/echo'',
         \<lparr>opt_method = ''POST'',
          opt_headers = JObj [(''Content-Type'', JStr ''application/json'')],
          opt_body = Some (TextBody
            (JSON_stringify sample_platform (JObj [(''a'', JNum 1)])))\<rparr>)]
   \<and> snd (supa_handleProxy sample_platform
          ''{"method":"post","url":"https://example.test/echo","body":{"a":1}}'')
     = snd (cf_proxy_handleProxy sample_platform
          ''{"method":"post","url":"https://example.test/echo","body":{"a":1}}'')
   \<and> spec_relay_options sample_platform ''post'' [] (JObj [(''a'', JNum 1)])
     = \<lparr>opt_method = ''POST'',
        opt_headers = JObj [(''Content-Type'', JStr ''application/json'')],
        opt_body = Some (TextBody
          (JSON_stringify sample_platform (JObj [(''a'', JNum 1)])))\<rparr>
   \<and> snd (cf_proxy_handleProxy sample_platform
          ''{"method":"GET","url":"https://example.test/hello","body":{"a":1}}'')
     = [(JStr ''https://example.test/hello'',
         \<lparr>opt_method = ''GET'', opt_headers = JObj [], opt_body = None\<rparr>)]
   \<and> status_and_body (fst (cf_proxy_handleProxy sample_platform
          ''{"method":"GET","url":"https://example.test/hello","body":{"a":1}}''))
     = Inr (200, Some (JSON_stringify sample_platform
              (JObj [(''raw_response'', JStr ''hello'')])))\<close>
proof -
  have r: "get_prop (JObj [(''method'', JStr ''post''), (''url'', JStr ''https://example.test/echo''),
                  (''body'', JObj [(''a'', JNum 1)])]) ''headers'' = JUndefined \<and> [] = ([] :: (string \<times> jsval) list)
         \<or> get_prop (JObj [(''method'', JStr ''post''), (''url'', JStr ''https://example.test/echo''),
                  (''body'', JObj [(''a'', JNum 1)])]) ''headers'' = JObj []"
    by simp
  have q: "get_prop (JObj [(''method'', JStr ''GET''), (''url'', JStr ''https://example.test/hello''),
                  (''body'', JObj [(''a'', JNum 1)])]) ''headers'' = JUndefined \<and> [] = ([] :: (string \<times> jsval) list)
         \<or> get_prop (JObj [(''method'', JStr ''GET''), (''url'', JStr ''https://example.test/hello''),
                  (''body'', JObj [(''a'', JNum 1)])]) ''headers'' = JObj []"
    by simp
  have e: "spelled_exactly []"
    by (simp add: spelled_exactly_def)
  show ?thesis
    using relay_call_shape [OF sample_parse_post _ _ _ _ r, of "''post''"
        "''https://example.test/echo''" "JObj [(''a'', JNum 1)]" 200 "''hello''"]
      relay_call_shape [OF sample_parse_get_with_body _ _ _ _ q, of "''GET''"
        "''https://example.test/hello''" "JObj [(''a'', JNum 1)]" 200 "''hello''"]
      e
    by (simp add: sample_upper spec_relay_options_def sample_fetch_hello sample_hello_wrapped
        null_body_status_def)
qed

lemma body_zero_call:
  \<open>snd (cf_proxy_handleProxy sample_platform
          ''{"method":"POST","url":"https://example.test/echo","body":0}'')
     = [(JStr ''https://example.test/echo'',
         \<lparr>opt_method = ''POST'', opt_headers = JObj [], opt_body = None\<rparr>)]\<close>
proof -
  have r: "get_prop (JObj [(''method'', JStr ''POST''), (''url'', JStr ''https://example.test/echo''),
                  (''body'', JNum 0)]) ''headers'' = JUndefined \<and> [] = ([] :: (string \<times> jsval) list)
         \<or> get_prop (JObj [(''method'', JStr ''POST''), (''url'', JStr ''https://example.test/echo''),
                  (''body'', JNum 0)]) ''headers'' = JObj []"
    by simp
  show ?thesis
    using relay_calls [OF sample_parse_body_zero _ _ _ _ r, of "''POST''"
        "''https://example.test/echo''" "JNum 0"]
    by (simp add: sample_upper)
qed

lemma empty_content_type_call:
  \<open>snd (cf_proxy_handleProxy sample_platform
          ''{"method":"POST","url":"https://example.test/echo","headers":{"Content-Type":""},"body":{"a":1}}'')
     = [(JStr ''https://example.test/echo'',
         \<lparr>opt_method = ''POST'',
          opt_headers = JObj [(''Content-Type'', JStr ''application/json'')],
          opt_body = Some (TextBody
            (JSON_stringify sample_platform (JObj [(''a'', JNum 1)])))\<rparr>)]\<close>
proof -
  have r: "get_prop (JObj [(''method'', JStr ''POST''), (''url'', JStr ''https://example.test/echo''),
                  (''headers'', JObj [(''Content-Type'', JStr [])]),
                  (''body'', JObj [(''a'', JNum 1)])]) ''headers'' = JUndefined
             \<and> [(''Content-Type'', JStr [])] = []
         \<or> get_prop (JObj [(''method'', JStr ''POST''), (''url'', JStr ''https://example.test/echo''),
                  (''headers'', JObj [(''Content-Type'', JStr [])]),
                  (''body'', JObj [(''a'', JNum 1)])]) ''headers'' = JObj [(''Content-Type'', JStr [])]"
    by simp
  show ?thesis
    using relay_calls [OF sample_parse_empty_content_type _ _ _ _ r, of "''POST''"
        "''https://example.test/echo''" "JObj [(''a'', JNum 1)]"]
    by (simp add: sample_upper)
qed

text \<open>
  Claim C2 as it is stated fails on two requests: a POST whose body is \<^verbatim>\<open>0\<close> is sent
  without a body, though a body is supplied; and a POST whose headers name
  \<^verbatim>\<open>Content-Type\<close> with the empty string has it replaced by \<^verbatim>\<open>application/json\<close>, though
  the caller specified the header.
\<close>

theorem relay_call_counterexample:
  \<open>snd (cf_proxy_handleProxy sample_platform
          ''{"method":"POST","url":"https://example.test/echo","body":0}'')
     \<noteq> [(JStr ''https://example.test/echo'',
          spec_relay_options sample_platform ''POST'' [] (JNum 0))]
   \<and> snd (cf_proxy_handleProxy sample_platform
          ''{"method":"POST","url":"https://example.test/echo","headers":{"Content-Type":""},"body":{"a":1}}'')
     \<noteq> [(JStr ''https://example.test/echo'',
          spec_relay_options sample_platform ''POST'' [(''Content-Type'', JStr [])]
            (JObj [(''a'', JNum 1)]))]\<close>
  by (simp add: body_zero_call empty_content_type_call spec_relay_options_def sample_upper
      names_content_type_def toLowerCase_def lower_char_def)

subsection \<open>The duplicated implementations\<close>

lemma with_extra_cors_simps [simp]:
  "with_extra_cors (Inl e, calls) = (Inl e, calls)"
  "with_extra_cors (Inr r, calls) = (Inr (extra_cors r), calls)"
  by (simp_all add: with_extra_cors_def)

lemma supa_jsonResponse_eq:
  "supa_jsonResponse P d s = map_sum id extra_cors (cf_proxy_jsonResponse P d s)"
  by (simp add: supa_jsonResponse_def cf_proxy_jsonResponse_def new_Response_def
      extra_cors_def corsHeaders_def)

lemma cf_upload_jsonResponse_eq: "cf_upload_jsonResponse P d s = cf_proxy_jsonResponse P d s"
  by (simp add: cf_upload_jsonResponse_def cf_proxy_jsonResponse_def)

lemma supa_forward_eq: "supa_forward P url fo = with_extra_cors (cf_proxy_forward P url fo)"
  by (simp add: supa_forward_def cf_proxy_forward_def supa_jsonResponse_eq with_extra_cors_def
      split: sum.splits)

lemma cf_upload_forward_eq: "cf_upload_forward P url fo = cf_proxy_forward P url fo"
  unfolding cf_upload_forward_def cf_proxy_forward_def cf_upload_jsonResponse_eq
  by (rule refl)

lemma supa_fetchOptions_eq:
  "supa_fetchOptions P m h b = cf_proxy_fetchOptions P m h b"
  by (cases m)
    (simp_all add: supa_fetchOptions_def cf_proxy_fetchOptions_def call_toUpperCase_def
      Let_def falsy_iff)

lemma decode_bytes_agree: "supa_decode_bytes s = cf_decode_bytes s"
  by (simp add: supa_decode_bytes_eq cf_decode_bytes_eq)

lemma supa_handleProxy_try_eq:
  "supa_handleProxy_try P t = with_extra_cors (cf_proxy_handleProxy_try P t)"
  by (simp add: supa_handleProxy_try_def cf_proxy_handleProxy_try_def supa_fetchOptions_eq
      supa_forward_eq supa_jsonResponse_eq with_extra_cors_def Let_def split: sum.splits)

lemma supa_handleUpload_try_eq:
  "supa_handleUpload_try P t = with_extra_cors (cf_proxy_handleUpload_try P t)"
  by (simp add: supa_handleUpload_try_def cf_proxy_handleUpload_try_def decode_bytes_agree
      supa_forward_eq supa_jsonResponse_eq with_extra_cors_def Let_def split: sum.splits)

lemma cf_upload_handleUpload_try_eq:
  "cf_upload_handleUpload_try P t = cf_proxy_handleUpload_try P t"
  unfolding cf_upload_handleUpload_try_def cf_proxy_handleUpload_try_def
    cf_upload_forward_eq cf_upload_jsonResponse_eq
  by (rule refl)

lemma supa_handleProxy_eq:
  "supa_handleProxy P t = with_extra_cors (cf_proxy_handleProxy P t)"
proof (cases "cf_proxy_handleProxy_try P t")
  case (Pair x calls)
  then show ?thesis
    by (cases x)
      (simp_all add: supa_handleProxy_def cf_proxy_handleProxy_def supa_handleProxy_try_eq
        supa_jsonResponse_eq with_extra_cors_def)
qed

lemma supa_handleUpload_eq:
  "supa_handleUpload P t = with_extra_cors (cf_proxy_handleUpload P t)"
proof (cases "cf_proxy_handleUpload_try P t")
  case (Pair x calls)
  then show ?thesis
    by (cases x)
      (simp_all add: supa_handleUpload_def cf_proxy_handleUpload_def supa_handleUpload_try_eq
        supa_jsonResponse_eq with_extra_cors_def)
qed

lemma cf_upload_handleUpload_eq: "cf_upload_handleUpload P t = cf_proxy_handleUpload P t"
  unfolding cf_upload_handleUpload_def cf_proxy_handleUpload_def
    cf_upload_handleUpload_try_eq cf_upload_jsonResponse_eq
  by (rule refl)

lemma status_and_body_extra_cors:
  "status_and_body (map_sum id extra_cors x) = status_and_body x"
  by (cases x) (simp_all add: status_and_body_def extra_cors_def)

text \<open>
  Claim C9, amended. For the same request body and the same platform, \<^verbatim>\<open>handleUpload\<close>
  of cf-worker-upload.js and of cf-worker-proxy.js give the same outcome; the handlers of
  supabase-edge-proxy.ts give the outcome of their Cloudflare counterparts (the same
  upstream calls, the same status and body) except that every reply carries three more
  headers, \<^verbatim>\<open>Access-Control-Allow-Methods\<close>, \<^verbatim>\<open>Access-Control-Allow-Headers\<close> and
  \<^verbatim>\<open>Access-Control-Max-Age\<close>; and the byte loop and \<^verbatim>\<open>Uint8Array.from\<close> give the same
  bytes.
\<close>

theorem duplicates_agree_up_to_headers:
  "cf_upload_handleUpload P t = cf_proxy_handleUpload P t
   \<and> supa_handleUpload P t = with_extra_cors (cf_proxy_handleUpload P t)
   \<and> supa_handleProxy P t = with_extra_cors (cf_proxy_handleProxy P t)
   \<and> status_and_body (fst (supa_handleUpload P t))
       = status_and_body (fst (cf_proxy_handleUpload P t))
   \<and> snd (supa_handleUpload P t) = snd (cf_proxy_handleUpload P t)
   \<and> status_and_body (fst (supa_handleProxy P t))
       = status_and_body (fst (cf_proxy_handleProxy P t))
   \<and> snd (supa_handleProxy P t) = snd (cf_proxy_handleProxy P t)
   \<and> supa_decode_bytes binaryStr = cf_decode_bytes binaryStr"
  by (simp add: supa_handleProxy_eq supa_handleUpload_eq status_and_body_extra_cors
      decode_bytes_agree cf_upload_handleUpload_eq with_extra_cors_def)

text \<open>No error escapes a handler: the result is always a reply.\<close>

lemma handlers_always_reply:
  "\<exists>r. fst (cf_proxy_handleProxy P t) = Inr r"
  "\<exists>r. fst (cf_proxy_handleUpload P t) = Inr r"
  "\<exists>r. fst (cf_upload_handleUpload P t) = Inr r"
  "\<exists>r. fst (supa_handleProxy P t) = Inr r"
  "\<exists>r. fst (supa_handleUpload P t) = Inr r"
  by (auto simp: supa_handleProxy_eq supa_handleUpload_eq cf_upload_handleUpload_eq
      with_extra_cors_def cf_proxy_handleProxy_def cf_proxy_handleUpload_def
      jsonResponse_400_500 split: prod.splits sum.splits)

text \<open>Claim C9 as it is stated fails: on the envelope that has a \<^verbatim>\<open>url\<close> and no
  \<^verbatim>\<open>method\<close> the two \<^verbatim>\<open>handleProxy\<close> give replies that differ (in their headers), and
  so do the \<^verbatim>\<open>handleUpload\<close> of the Supabase file and of cf-worker-proxy.js on a valid
  upload.\<close>

theorem duplicates_differ_in_headers:
  \<open>fst (supa_handleProxy sample_platform ''{"url":"https://example.test/echo"}'')
     \<noteq> fst (cf_proxy_handleProxy sample_platform ''{"url":"https://example.test/echo"}'')
   \<and> fst (supa_handleUpload sample_platform
        ''{"image_data":"aGk=","filename":"photo.JPG","token":"t0k","target_url":"https://example.test/up"}'')
     \<noteq> fst (cf_proxy_handleUpload sample_platform
        ''{"image_data":"aGk=","filename":"photo.JPG","token":"t0k","target_url":"https://example.test/up"}'')\<close>
proof -
  have differ: "map_sum id extra_cors x \<noteq> x" if "x = Inr r" for x r
    using that by (cases r) (simp add: extra_cors_def corsHeaders_def)
  obtain r where r: "fst (cf_proxy_handleProxy sample_platform
      ''{\"url\":\"https://example.test/echo\"}'') = Inr r"
    using handlers_always_reply(1) by blast
  obtain u where u: "fst (cf_proxy_handleUpload sample_platform
      ''{\"image_data\":\"aGk=\",\"filename\":\"photo.JPG\",\"token\":\"t0k\",\"target_url\":\"https://example.test/up\"}'')
      = Inr u"
    using handlers_always_reply(2) by blast
  show ?thesis
    using differ [OF r] differ [OF u]
    by (simp add: supa_handleProxy_eq supa_handleUpload_eq with_extra_cors_def)
qed

subsection \<open>The status and the body of the upstream answer\<close>

lemma jsonResponse_plain:
  assumes "200 \<le> s" and "s \<le> 599" and "\<not> null_body_status s"
  shows "cf_proxy_jsonResponse P d s
           = Inr \<lparr>res_status = s,
                  res_headers = [(''Content-Type'', ''application/json''),
                                 (''Access-Control-Allow-Origin'', ''*'')],
                  res_body = Some (JSON_stringify P d)\<rparr>"
  using assms by (simp add: cf_proxy_jsonResponse_def new_Response_def)

lemma jsonResponse_null_body:
  assumes "s = 204 \<or> s = 205 \<or> s = 304"
  shows "cf_proxy_jsonResponse P d s = Inl (fault_message P NullBodyStatusWithBody)"
  using assms by (auto simp: cf_proxy_jsonResponse_def new_Response_def null_body_status_def)

lemma jsonResponse_out_of_range:
  assumes "s < 200 \<or> 599 < s"
  shows "cf_proxy_jsonResponse P d s = Inl (fault_message P StatusOutOfRange)"
  using assms by (auto simp: cf_proxy_jsonResponse_def new_Response_def)

text \<open>The status is kept, and a JSON body comes back as the same value, for every
  status of 200..599 that allows a body.\<close>

lemma forward_keeps_status:
  assumes "net_fetch P url options = Inr \<lparr>up_status = s, up_text = Inr t\<rparr>"
    and "200 \<le> s" and "s \<le> 599" and "\<not> null_body_status s"
  shows "status_and_body (fst (cf_proxy_forward P url options))
           = Inr (s, Some (JSON_stringify P (parse_or_wrap P t)))"
  using assms by (simp add: cf_proxy_forward_def jsonResponse_plain status_and_body_def)

lemma round_trip:
  assumes "JSON_parse P (JSON_stringify P v) = Inr v"
  shows "parse_or_wrap P (JSON_stringify P v) = v"
  using assms by (simp add: parse_or_wrap_def)

lemma wrap_unparsed:
  assumes "JSON_parse P t = Inl e"
  shows "parse_or_wrap P t = JObj [(''raw_response'', JStr t)]"
  using assms by (simp add: parse_or_wrap_def)

lemma forward_throws_on_null_body_status:
  assumes "net_fetch P url options = Inr \<lparr>up_status = s, up_text = Inr t\<rparr>"
    and "s = 204 \<or> s = 205 \<or> s = 304"
  shows "cf_proxy_forward P url options
           = (Inl (fault_message P NullBodyStatusWithBody), [(url, options)])"
  using assms by (simp add: cf_proxy_forward_def jsonResponse_null_body)

lemma sample_parse_get_empty:
  \<open>JSON_parse sample_platform ''{"method":"GET","url":"https://example.test/empty"}''
     = Inr (JObj [(''method'', JStr ''GET''), (''url'', JStr ''https://example.test/empty'')])\<close>
  by (simp add: sample_platform_def sample_parse_def sample_documents_def)

lemma sample_fetch_empty:
  "net_fetch sample_platform (JStr ''https://example.test/empty'') options
     = Inr \<lparr>up_status = 204, up_text = Inr []\<rparr>"
  by (simp add: sample_platform_def sample_fetch_def)

text \<open>
  Claim C5 says that an upstream answer of status \<open>s\<close> whose text is the JSON text of a
  value comes back as that value with status \<open>s\<close>, and that the relay never puts a status
  of its own in place of the status of a completed upstream call. The second part
  fails on the code: an upstream that answers 204 (no content, empty text) makes
  \<^verbatim>\<open>jsonResponse\<close> build a reply with a body and the status 204, which the
  \<^verbatim>\<open>Response\<close> constructor refuses; the outer \<^verbatim>\<open>catch\<close> then replies 500. The comment
  above the \<^verbatim>\<open>return\<close> says that the original status is kept.
\<close>

theorem no_content_reply_becomes_500:
  \<open>net_fetch sample_platform (JStr ''https://example.test/empty'')
       \<lparr>opt_method = ''GET'', opt_headers = JObj [], opt_body = None\<rparr>
     = Inr \<lparr>up_status = 204, up_text = Inr []\<rparr>
   \<and> cf_proxy_handleProxy sample_platform
        ''{"method":"GET","url":"https://example.test/empty"}''
     = (Inr \<lparr>res_status = 500,
              res_headers = [(''Content-Type'', ''application/json''),
                             (''Access-Control-Allow-Origin'', ''*'')],
              res_body = Some (JSON_stringify sample_platform
                (JObj [(''error'', JStr ''Proxy request failed''),
                       (''message'',
                        JStr ''Response with null body status cannot have body'')]))\<rparr>,
        [(JStr ''https://example.test/empty'',
          \<lparr>opt_method = ''GET'', opt_headers = JObj [], opt_body = None\<rparr>)])
   \<and> status_and_body (fst (supa_handleProxy sample_platform
        ''{"method":"GET","url":"https://example.test/empty"}''))
     = Inr (500, Some (JSON_stringify sample_platform
                (JObj [(''error'', JStr ''Proxy request failed''),
                       (''message'',
                        JStr ''Response with null body status cannot have body'')])))\<close>
proof -
  have o: "cf_proxy_fetchOptions sample_platform (JStr ''GET'') JUndefined JUndefined
             = Inr \<lparr>opt_method = ''GET'', opt_headers = JObj [], opt_body = None\<rparr>"
    by (simp add: cf_proxy_fetchOptions_absent cf_proxy_fetchOptions_object sample_upper)
  have m: "fault_message sample_platform NullBodyStatusWithBody
             = ''Response with null body status cannot have body''"
    by (simp add: sample_platform_def sample_message_def)
  have t: "cf_proxy_handleProxy_try sample_platform
             ''{\"method\":\"GET\",\"url\":\"https://example.test/empty\"}''
           = (Inl ''Response with null body status cannot have body'',
              [(JStr ''https://example.test/empty'',
                \<lparr>opt_method = ''GET'', opt_headers = JObj [], opt_body = None\<rparr>)])"
    using sample_parse_get_empty
    by (simp add: cf_proxy_handleProxy_try_def o
        forward_throws_on_null_body_status [OF sample_fetch_empty] m)
  have c: "cf_proxy_handleProxy sample_platform
        ''{\"method\":\"GET\",\"url\":\"https://example.test/empty\"}''
     = (Inr \<lparr>res_status = 500,
              res_headers = [(''Content-Type'', ''application/json''),
                             (''Access-Control-Allow-Origin'', ''*'')],
              res_body = Some (JSON_stringify sample_platform
                (JObj [(''error'', JStr ''Proxy request failed''),
                       (''message'',
                        JStr ''Response with null body status cannot have body'')]))\<rparr>,
        [(JStr ''https://example.test/empty'',
          \<lparr>opt_method = ''GET'', opt_headers = JObj [], opt_body = None\<rparr>)])"
    by (simp add: cf_proxy_handleProxy_def t jsonResponse_400_500)
  show ?thesis
    by (simp add: sample_fetch_empty c supa_handleProxy_eq status_and_body_extra_cors
        with_extra_cors_def status_and_body_def extra_cors_def)
qed

text \<open>
  Claim C6 says that for every text that fails to parse and every status \<open>s\<close> the reply is
  the wrapper \<^verbatim>\<open>{ raw_response: t }\<close> with the status \<open>s\<close>, and that this step never
  throws. On the code the wrapper is chosen, but for the statuses 204, 205 and 304
  \<^verbatim>\<open>jsonResponse\<close> throws, in each of the three files, so the step yields no reply with
  that status.
\<close>

theorem unparsed_text_with_null_body_status_throws:
  assumes "net_fetch P url options = Inr \<lparr>up_status = s, up_text = Inr t\<rparr>"
    and "JSON_parse P t = Inl e"
    and "s = 204 \<or> s = 205 \<or> s = 304"
  shows "parse_or_wrap P t = JObj [(''raw_response'', JStr t)]
       \<and> cf_proxy_jsonResponse P (parse_or_wrap P t) s
           = Inl (fault_message P NullBodyStatusWithBody)
       \<and> cf_proxy_forward P url options
           = (Inl (fault_message P NullBodyStatusWithBody), [(url, options)])
       \<and> cf_upload_forward P url options
           = (Inl (fault_message P NullBodyStatusWithBody), [(url, options)])
       \<and> supa_forward P url options
           = (Inl (fault_message P NullBodyStatusWithBody), [(url, options)])"
  using assms
  by (simp add: wrap_unparsed jsonResponse_null_body forward_throws_on_null_body_status
      cf_upload_forward_eq supa_forward_eq)

lemma sample_parse_empty_text: "JSON_parse sample_platform [] = Inl ''Unexpected token''"
  by (simp add: sample_platform_def sample_parse_def sample_documents_def)

text \<open>Claim C6 on the sample platform: the empty text with status 204.\<close>

theorem unparsed_text_witness:
  "net_fetch sample_platform (JStr ''https://example.test/empty'')
       \<lparr>opt_method = ''GET'', opt_headers = JObj [], opt_body = None\<rparr>
     = Inr \<lparr>up_status = 204, up_text = Inr []\<rparr>
   \<and> JSON_parse sample_platform [] = Inl ''Unexpected token''
   \<and> cf_proxy_forward sample_platform (JStr ''https://example.test/empty'')
       \<lparr>opt_method = ''GET'', opt_headers = JObj [], opt_body = None\<rparr>
     = (Inl ''Response with null body status cannot have body'',
        [(JStr ''https://example.test/empty'',
          \<lparr>opt_method = ''GET'', opt_headers = JObj [], opt_body = None\<rparr>)])"
proof -
  have m: "fault_message sample_platform NullBodyStatusWithBody
             = ''Response with null body status cannot have body''"
    by (simp add: sample_platform_def sample_message_def)
  show ?thesis
    using unparsed_text_with_null_body_status_throws
      [OF sample_fetch_empty sample_parse_empty_text, of "\<lparr>opt_method = ''GET'', opt_headers = JObj [], opt_body = None\<rparr>"]
      sample_fetch_empty sample_parse_empty_text m
    by simp
qed

text \<open>Where the status allows a body, the wrapper is what the claim says.\<close>

lemma unparsed_text_is_wrapped:
  assumes "net_fetch P url options = Inr \<lparr>up_status = s, up_text = Inr t\<rparr>"
    and "JSON_parse P t = Inl e"
    and "200 \<le> s" and "s \<le> 599" and "\<not> null_body_status s"
  shows "status_and_body (fst (cf_proxy_forward P url options))
           = Inr (s, Some (JSON_stringify P (JObj [(''raw_response'', JStr t)])))"
  using assms by (simp add: forward_keeps_status wrap_unparsed)

lemma parsed_text_round_trip:
  assumes "net_fetch P url options = Inr \<lparr>up_status = s, up_text = Inr (JSON_stringify P v)\<rparr>"
    and "JSON_parse P (JSON_stringify P v) = Inr v"
    and "200 \<le> s" and "s \<le> 599" and "\<not> null_body_status s"
  shows "status_and_body (fst (cf_proxy_forward P url options))
           = Inr (s, Some (JSON_stringify P v))"
  using assms by (simp add: forward_keeps_status round_trip)

subsection \<open>The headers of the replies\<close>

lemma jsonResponse_headers:
  "cf_proxy_jsonResponse P d s = Inr r \<Longrightarrow> json_and_cors r"
  "cf_upload_jsonResponse P d s = Inr r \<Longrightarrow> json_and_cors r"
  "supa_jsonResponse P d s = Inr r \<Longrightarrow> json_and_cors r"
  by (auto simp: cf_proxy_jsonResponse_def cf_upload_jsonResponse_def supa_jsonResponse_def
      new_Response_def json_and_cors_def corsHeaders_def split: if_splits)

lemma forward_headers:
  "fst (cf_proxy_forward P url fo) = Inr r \<Longrightarrow> json_and_cors r"
  by (auto simp: cf_proxy_forward_def split: sum.splits dest: jsonResponse_headers)

lemma cf_proxy_handleProxy_try_headers:
  "fst (cf_proxy_handleProxy_try P t) = Inr r \<Longrightarrow> json_and_cors r"
  by (auto simp: cf_proxy_handleProxy_try_def Let_def split: sum.splits if_splits
      dest: jsonResponse_headers forward_headers)

lemma cf_proxy_handleUpload_try_headers:
  "fst (cf_proxy_handleUpload_try P t) = Inr r \<Longrightarrow> json_and_cors r"
  by (auto simp: cf_proxy_handleUpload_try_def Let_def split: sum.splits if_splits
      dest: jsonResponse_headers forward_headers)

lemma cf_proxy_handler_headers:
  "fst (cf_proxy_handleProxy P t) = Inr r \<Longrightarrow> json_and_cors r"
  "fst (cf_proxy_handleUpload P t) = Inr r \<Longrightarrow> json_and_cors r"
proof -
  have a: "json_and_cors r" if "cf_proxy_handleProxy_try P t = (Inr r, c)" for c
    using cf_proxy_handleProxy_try_headers [of P t r] that by simp
  have b: "json_and_cors r" if "cf_proxy_handleUpload_try P t = (Inr r, c)" for c
    using cf_proxy_handleUpload_try_headers [of P t r] that by simp
  show "fst (cf_proxy_handleProxy P t) = Inr r \<Longrightarrow> json_and_cors r"
    by (auto simp: cf_proxy_handleProxy_def split: prod.splits sum.splits
        dest: jsonResponse_headers a)
  show "fst (cf_proxy_handleUpload P t) = Inr r \<Longrightarrow> json_and_cors r"
    by (auto simp: cf_proxy_handleUpload_def split: prod.splits sum.splits
        dest: jsonResponse_headers b)
qed

lemma json_and_cors_extra: "json_and_cors r \<Longrightarrow> json_and_cors (extra_cors r)"
  by (auto simp: json_and_cors_def extra_cors_def map_add_def corsHeaders_def
      split: option.splits)

text \<open>Every reply of a relay handler, and every reply of the Supabase router to a
  request that is no preflight, carries both headers.\<close>

lemma relay_replies_carry_both_headers:
  "fst (cf_proxy_handleProxy P t) = Inr r \<Longrightarrow> json_and_cors r"
  "fst (cf_proxy_handleUpload P t) = Inr r \<Longrightarrow> json_and_cors r"
  "fst (cf_upload_handleUpload P t) = Inr r \<Longrightarrow> json_and_cors r"
  "fst (supa_handleProxy P t) = Inr r \<Longrightarrow> json_and_cors r"
  "fst (supa_handleUpload P t) = Inr r \<Longrightarrow> json_and_cors r"
  by (auto simp: supa_handleProxy_eq supa_handleUpload_eq cf_upload_handleUpload_eq
      with_extra_cors_def map_sum_def
      split: sum.splits dest: cf_proxy_handler_headers json_and_cors_extra)

lemma supa_serve_carries_both_headers:
  "req_method req \<noteq> ''OPTIONS'' \<Longrightarrow> fst (supa_serve P req) = Inr r \<Longrightarrow> json_and_cors r"
  by (auto simp: supa_serve_def split: if_splits
      dest: relay_replies_carry_both_headers jsonResponse_headers)

text \<open>
  Claim C8 says that every reply (relay success, validation failure, server error,
  health check, not found) carries both \<^verbatim>\<open>Content-Type: application/json\<close> and
  \<^verbatim>\<open>Access-Control-Allow-Origin: *\<close>. In the two Cloudflare files the health and the
  not-found replies are built by hand with the first header only, while
  supabase-edge-proxy.ts builds them with \<^verbatim>\<open>jsonResponse\<close>, which sets both.
\<close>

theorem cf_health_and_not_found_lack_cors_header:
  "cf_proxy_fetch P \<lparr>req_method = ''GET'', req_pathname = ''/health'', req_text = t\<rparr>
     = (Inr \<lparr>res_status = 200,
              res_headers = [(''Content-Type'', ''application/json'')],
              res_body = Some (JSON_stringify P
                (JObj [(''status'', JStr ''ok''), (''timestamp'', JStr (now_ISO P))]))\<rparr>,
        [])
   \<and> cf_proxy_fetch P \<lparr>req_method = ''GET'', req_pathname = ''/nowhere'', req_text = t\<rparr>
     = (Inr \<lparr>res_status = 404,
              res_headers = [(''Content-Type'', ''application/json'')],
              res_body = Some (JSON_stringify P (JObj [(''error'', JStr ''Not Found'')]))\<rparr>,
        [])
   \<and> cf_upload_fetch P \<lparr>req_method = ''GET'', req_pathname = ''/health'', req_text = t\<rparr>
     = cf_proxy_fetch P \<lparr>req_method = ''GET'', req_pathname = ''/health'', req_text = t\<rparr>
   \<and> cf_upload_fetch P \<lparr>req_method = ''GET'', req_pathname = ''/nowhere'', req_text = t\<rparr>
     = cf_proxy_fetch P \<lparr>req_method = ''GET'', req_pathname = ''/nowhere'', req_text = t\<rparr>
   \<and> \<not> json_and_cors \<lparr>res_status = 200,
              res_headers = [(''Content-Type'', ''application/json'')],
              res_body = Some (JSON_stringify P
                (JObj [(''status'', JStr ''ok''), (''timestamp'', JStr (now_ISO P))]))\<rparr>
   \<and> \<not> json_and_cors \<lparr>res_status = 404,
              res_headers = [(''Content-Type'', ''application/json'')],
              res_body = Some (JSON_stringify P (JObj [(''error'', JStr ''Not Found'')]))\<rparr>"
  by (simp add: cf_proxy_fetch_def cf_upload_fetch_def new_Response_def null_body_status_def
      json_and_cors_def)


text \<open>A body that is the JSON text \<^verbatim>\<open>null\<close> is no envelope: destructuring it throws,
  and the reply is 500.\<close>

lemma null_body_is_500:
  assumes "JSON_parse P requestText = Inr JNull"
  shows "status_and_body (fst (cf_proxy_handleProxy P requestText))
           = Inr (500, Some (JSON_stringify P
               (JObj [(''error'', JStr ''Proxy request failed''),
                      (''message'', JStr (fault_message P DestructureNull))])))"
  using assms
  by (simp add: cf_proxy_handleProxy_def cf_proxy_handleProxy_try_def jsonResponse_400_500
      status_and_body_def)

end
